theory Spec2Isabelle
  imports Complex_Main "HOL-Library.Multiset"
begin

section \<open>Python values and exceptions\<close>

text \<open>
  Every \<^verbatim>\<open>raise\<close> of the modules, and every exception of the Python runtime and of
  \<^verbatim>\<open>sqlite3\<close> that the modelled code can meet, is a value of \<open>error\<close>; a function
  that may raise returns \<open>error + 'a\<close>, with \<open>Inl\<close> for the exception.
\<close>

datatype error =
    FileNotFoundError string
  | OperationalError string
  | ZeroDivisionError
  | IndexError

subsection \<open>Numbers\<close>

text \<open>
  Hours are Python \<^verbatim>\<open>int\<close>s and \<^verbatim>\<open>float\<close>s. A number is represented by its exact value,
  a rational; the doubles are the rationals that \<open>round_double\<close> leaves unchanged. The
  quotient and the product of the percentage are computed as Python computes them on
  doubles: the exact result rounded to the nearest double, ties to the even significand
  (IEEE 754 binary64: 53 significant bits, and a spacing of \<open>2\<close> to the power \<open>-1074\<close> in the
  subnormal range). Not modelled: a result beyond the largest double (about \<open>1.8e308\<close>),
  which Python turns into an infinity, and infinities and NaN as values of hours. The sums
  of hours (\<^verbatim>\<open>SUM\<close> in SQL and \<^verbatim>\<open>new_hours + carryover_hours\<close>) are exact, as they are on
  doubles for whole hours; \<^verbatim>\<open>float(x)\<close> is the identity on these values.
\<close>

text \<open>
  The exponent \<open>e\<close> of a positive number \<open>x\<close>, with \<open>2\<close> to the \<open>e\<close> at most \<open>x\<close> and \<open>x\<close> below
  \<open>2\<close> to the \<open>e + 1\<close>: the halvings that bring \<open>x\<close> below \<open>2\<close>, or the doublings that bring it
  to \<open>1\<close>.
\<close>

function exp_up :: "rat \<Rightarrow> nat" where
  "exp_up x = (if 2 \<le> x then Suc (exp_up (x / 2)) else 0)"
  by pat_completeness auto
termination
proof (relation "measure (\<lambda>x. nat \<lfloor>x\<rfloor>)")
  show "wf (measure (\<lambda>x::rat. nat \<lfloor>x\<rfloor>))" by simp
next
  fix x :: rat
  assume a: "2 \<le> x"
  have "x - 1 < of_int \<lfloor>x\<rfloor>" by linarith
  with a have "x / 2 < of_int \<lfloor>x\<rfloor>" by linarith
  then have "\<lfloor>x / 2\<rfloor> < \<lfloor>x\<rfloor>" by (simp add: floor_less_iff)
  moreover from a have "0 < \<lfloor>x\<rfloor>" by simp
  ultimately show "(x / 2, x) \<in> measure (\<lambda>x. nat \<lfloor>x\<rfloor>)" by simp
qed

declare exp_up.simps [simp del]

function exp_down :: "rat \<Rightarrow> nat" where
  "exp_down x = (if 0 < x \<and> x < 1 then Suc (exp_down (x * 2)) else 0)"
  by pat_completeness auto
termination
proof (relation "measure (\<lambda>x. nat \<lfloor>1 / x\<rfloor>)")
  show "wf (measure (\<lambda>x::rat. nat \<lfloor>1 / x\<rfloor>))" by simp
next
  fix x :: rat
  assume a: "0 < x \<and> x < 1"
  define y where "y = 1 / x"
  from a have y: "1 < y" by (simp add: y_def)
  have "y / 2 < of_int \<lfloor>y\<rfloor>"
  proof (cases "2 \<le> y")
    case True
    have "y - 1 < of_int \<lfloor>y\<rfloor>" by linarith
    with True show ?thesis by linarith
  next
    case False
    with y have "\<lfloor>y\<rfloor> = 1" by linarith
    with False show ?thesis by simp
  qed
  then have "\<lfloor>y / 2\<rfloor> < \<lfloor>y\<rfloor>" by (simp add: floor_less_iff)
  moreover from y have "0 < \<lfloor>y\<rfloor>" by simp
  moreover have "y / 2 = 1 / (x * 2)" by (simp add: y_def)
  ultimately show "(x * 2, x) \<in> measure (\<lambda>x. nat \<lfloor>1 / x\<rfloor>)" by (simp add: y_def)
qed

declare exp_down.simps [simp del]

definition exponent :: "rat \<Rightarrow> int" where
  "exponent x = (if 1 \<le> x then int (exp_up x) else - int (exp_down x))"

definition pow2 :: "int \<Rightarrow> rat" where
  "pow2 k = (if 0 \<le> k then 2 ^ nat k else 1 / 2 ^ nat (- k))"

text \<open>The nearest integer, a tie going to the even one.\<close>

definition round_half_even :: "rat \<Rightarrow> int" where
  "round_half_even y =
     (let n = \<lfloor>y\<rfloor>; r = y - of_int n in
      if r < 1 / 2 then n
      else if 1 / 2 < r then n + 1
      else if even n then n else n + 1)"

text \<open>
  The nearest double: the nearest multiple of the spacing of the doubles at \<open>x\<close>, which is \<open>2\<close>
  to the power \<open>e - 52\<close>, and \<open>-1074\<close> at least.
\<close>

definition round_double :: "rat \<Rightarrow> rat" where
  "round_double x =
     (if x = 0 then 0
      else (let q = max (exponent \<bar>x\<bar> - 52) (- 1074) in
            of_int (round_half_even (x / pow2 q)) * pow2 q))"

text \<open>\<^verbatim>\<open>a / b\<close> on numbers: true division, raising on a zero divisor.\<close>

definition py_truediv :: "rat \<Rightarrow> rat \<Rightarrow> error + rat" where
  "py_truediv a b = (if b = 0 then Inl ZeroDivisionError else Inr (round_double (a / b)))"

text \<open>\<^verbatim>\<open>a * b\<close> where one of the numbers is a \<^verbatim>\<open>float\<close>.\<close>

definition py_mul :: "rat \<Rightarrow> rat \<Rightarrow> rat" where
  "py_mul a b = round_double (a * b)"

text \<open>\<^verbatim>\<open>int(x)\<close> on a number: truncation towards zero.\<close>

definition py_int :: "rat \<Rightarrow> int" where
  "py_int x = (if 0 \<le> x then \<lfloor>x\<rfloor> else \<lceil>x\<rceil>)"

text \<open>\<^verbatim>\<open>xs[i]\<close> on a list: a negative index counts from the end, an index out of range raises.\<close>

definition py_getitem :: "'a list \<Rightarrow> int \<Rightarrow> error + 'a" where
  "py_getitem xs i =
     (if 0 \<le> i \<and> i < int (length xs) then Inr (xs ! nat i)
      else if i < 0 \<and> - int (length xs) \<le> i then Inr (xs ! nat (int (length xs) + i))
      else Inl IndexError)"

section \<open>The store: tables read by the queries\<close>

text \<open>
  Modelled from the spec: the schema of the logistics database is not part of the
  repository. The tables carry the columns the four SQL statements name, typed as the
  data model describes them (identifiers and ordering keys are integers, hours are numbers,
  labels are text); a nullable column is an \<open>option\<close>, with \<open>None\<close> for SQL \<^verbatim>\<open>NULL\<close>.
  The field \<open>arrival_date\<close> holds the value of \<^verbatim>\<open>DATE(arrival_time)\<close>, the only way the
  statements read the arrival timestamp. \<open>created_at\<close> is a point in time, as a number.
\<close>

record vehicle =
  v_id :: int
  shift_assigned :: "string option"
  arrival_date :: "string option"
  estimated_labor_hours :: "rat option"
  status :: "string option"
  current_stage_id :: "int option"

record work_order =
  vehicle_id :: "int option"
  wo_status :: "string option"
  estimated_hours :: "rat option"
  actual_hours :: "rat option"

record production_stage =
  ps_id :: int
  ps_stage_name :: string
  ps_stage_order :: int

record shift_summary =
  shift_date :: "string option"
  shift_type :: "string option"
  ss_carryover_hours :: "rat option"
  created_at :: int

text \<open>A table that does not exist in the file is \<open>None\<close>: a statement naming it fails.\<close>

record database =
  vehicles :: "vehicle list option"
  work_orders :: "work_order list option"
  production_stages :: "production_stage list option"
  shift_summaries :: "shift_summary list option"

section \<open>SQL expressions and clauses\<close>

text \<open>
  SQL's three-valued logic: a truth value is \<open>Some True\<close>, \<open>Some False\<close> or \<open>None\<close>
  (\<^verbatim>\<open>NULL\<close>, unknown). \<^verbatim>\<open>WHERE\<close>, \<^verbatim>\<open>ON\<close> and \<^verbatim>\<open>CASE WHEN\<close> take a row only when the
  condition is true.
\<close>

definition sql_eq :: "'a option \<Rightarrow> 'a option \<Rightarrow> bool option" where
  "sql_eq a b = (case a of None \<Rightarrow> None | Some x \<Rightarrow> (case b of None \<Rightarrow> None | Some y \<Rightarrow> Some (x = y)))"

definition sql_ne :: "'a option \<Rightarrow> 'a option \<Rightarrow> bool option" where
  "sql_ne a b = (case a of None \<Rightarrow> None | Some x \<Rightarrow> (case b of None \<Rightarrow> None | Some y \<Rightarrow> Some (x \<noteq> y)))"

definition sql_and :: "bool option \<Rightarrow> bool option \<Rightarrow> bool option" where
  "sql_and p q =
     (if p = Some False \<or> q = Some False then Some False
      else if p = Some True \<and> q = Some True then Some True
      else None)"

definition sql_or :: "bool option \<Rightarrow> bool option \<Rightarrow> bool option" where
  "sql_or p q =
     (if p = Some True \<or> q = Some True then Some True
      else if p = Some False \<and> q = Some False then Some False
      else None)"

definition sql_is_null :: "'a option \<Rightarrow> bool option" where
  "sql_is_null a = Some (a = None)"

definition is_true :: "bool option \<Rightarrow> bool" where
  "is_true p = (p = Some True)"

text \<open>\<^verbatim>\<open>COUNT(expr)\<close> counts the rows where the expression is not \<^verbatim>\<open>NULL\<close>.\<close>

definition sql_count :: "'a option list \<Rightarrow> int" where
  "sql_count xs = int (length (filter (\<lambda>x. x \<noteq> None) xs))"

text \<open>\<^verbatim>\<open>SUM(expr)\<close> adds the values that are not \<^verbatim>\<open>NULL\<close>, and is \<^verbatim>\<open>NULL\<close> when there is none.\<close>

definition sql_sum :: "rat option list \<Rightarrow> rat option" where
  "sql_sum xs =
     (case filter (\<lambda>x. x \<noteq> None) xs of
        [] \<Rightarrow> None
      | ys \<Rightarrow> Some (sum_list (map the ys)))"

definition coalesce :: "'a option \<Rightarrow> 'a \<Rightarrow> 'a" where
  "coalesce a d = (case a of None \<Rightarrow> d | Some x \<Rightarrow> x)"

text \<open>A column of the right-hand table of a \<^verbatim>\<open>LEFT JOIN\<close>: \<^verbatim>\<open>NULL\<close> on a row without a match.\<close>

definition col :: "('r \<Rightarrow> 'a option) \<Rightarrow> 'r option \<Rightarrow> 'a option" where
  "col f r = (case r of None \<Rightarrow> None | Some x \<Rightarrow> f x)"

text \<open>
  \<^verbatim>\<open>xs LEFT JOIN ys ON on\<close>: every left row with each right row the condition takes, and
  once with \<^verbatim>\<open>NULL\<close>s when it takes none.
\<close>

definition left_join :: "('a \<Rightarrow> 'b \<Rightarrow> bool) \<Rightarrow> 'a list \<Rightarrow> 'b list \<Rightarrow> ('a \<times> 'b option) list" where
  "left_join on xs ys =
     concat (map (\<lambda>x. case filter (on x) ys of
                         [] \<Rightarrow> [(x, None)]
                       | ms \<Rightarrow> map (\<lambda>y. (x, Some y)) ms) xs)"

text \<open>\<^verbatim>\<open>GROUP BY key\<close>: one group for each distinct key, holding the rows of that key.\<close>

definition group_by :: "('r \<Rightarrow> 'k) \<Rightarrow> 'r list \<Rightarrow> ('k \<times> 'r list) list" where
  "group_by key rows = map (\<lambda>k. (k, filter (\<lambda>r. key r = k) rows)) (remdups (map key rows))"

section \<open>database.py\<close>

text \<open>
  What lives at \<^verbatim>\<open>DATABASE_PATH\<close>: whether the path exists, and what opening it read-only
  gives, the tables or an error of \<^verbatim>\<open>sqlite3\<close>.
\<close>

record store =
  database_path :: string
  path_exists :: bool
  sqlite_connect :: "error + database"

text \<open>
  A statement with its parameters bound, as \<^verbatim>\<open>query_df\<close> runs it: \<^verbatim>\<open>conn.execute\<close>,
  \<^verbatim>\<open>fetchall\<close> and the conversion of the rows, on an open connection. It returns the rows
  or the exception of \<^verbatim>\<open>sqlite3\<close>.
\<close>

type_synonym 'row statement = "database \<Rightarrow> error + 'row list"

text \<open>
  \<^verbatim>\<open>get_connection\<close> (database.py, lines 11 to 23) raises when the path does not exist,
  before it connects; the body of a \<^verbatim>\<open>with get_connection() as conn\<close> block is the
  continuation on the connection. Closing the connection in \<^verbatim>\<open>finally\<close> returns nothing.
\<close>

definition get_connection :: "store \<Rightarrow> error + database" where
  "get_connection st =
     (if \<not> path_exists st then Inl (FileNotFoundError (''Database not found: '' @ database_path st))
      else sqlite_connect st)"

text \<open>\<^verbatim>\<open>query_df\<close> (lines 26 to 31) and \<^verbatim>\<open>query_one\<close> (lines 34 to 37).\<close>

definition query_df :: "store \<Rightarrow> 'row statement \<Rightarrow> error + 'row list" where
  "query_df st stmt =
     (case get_connection st of
        Inl e \<Rightarrow> Inl e
      | Inr conn \<Rightarrow> stmt conn)"

definition query_one :: "store \<Rightarrow> 'row statement \<Rightarrow> error + 'row option" where
  "query_one st stmt =
     (case query_df st stmt of
        Inl e \<Rightarrow> Inl e
      | Inr results \<Rightarrow>
          (if results \<noteq> [] then
             (case py_getitem results 0 of Inl e \<Rightarrow> Inl e | Inr r \<Rightarrow> Inr (Some r))
           else Inr None))"

section \<open>shift\_progress.py\<close>

text \<open>
  The clock the modules read: \<^verbatim>\<open>datetime.now().hour\<close> and \<^verbatim>\<open>date.today()\<close>. A
  \<^verbatim>\<open>datetime.date\<close> is represented by its ISO text \<^verbatim>\<open>YYYY-MM-DD\<close>.
\<close>

type_synonym date = string

record clock =
  now_hour :: nat
  today :: date

definition isoformat :: "date \<Rightarrow> string" where
  "isoformat d = d"

text \<open>\<^verbatim>\<open>get_current_shift\<close> (shift\_progress.py, lines 7 to 11).\<close>

definition get_current_shift :: "clock \<Rightarrow> string" where
  "get_current_shift clk =
     (let hour = now_hour clk in
      if 6 \<le> hour \<and> hour < 18 then ''day'' else ''night'')"

subsection \<open>The percentage expression\<close>

text \<open>
  The expression that both calculators use for the percentage (shift\_progress.py, lines
  82 to 84, and stage\_breakdown.py, line 55):
  \<^verbatim>\<open>int((completed / total * 100) if total > 0 else 0)\<close>.
\<close>

definition percentage :: "rat \<Rightarrow> rat \<Rightarrow> error + int" where
  "percentage completed total_h =
     (if total_h > 0 then
        (case py_truediv completed total_h of
           Inl e \<Rightarrow> Inl e
         | Inr q \<Rightarrow> Inr (py_int (py_mul q 100)))
      else Inr (py_int 0))"

subsection \<open>The three statements of the workload\<close>

record vehicle_stats =
  row_total_vehicles :: int
  row_total_hours :: rat
  row_completed_vehicles :: int

record completed_stats =
  row_completed_hours :: rat

record carryover_stats =
  row_carryover_hours :: rat

text \<open>
  \<^verbatim>\<open>WHERE shift_assigned = ? AND DATE(arrival_time) = ?\<close>, on a vehicle.
\<close>

definition shift_date_where :: "string option \<Rightarrow> string option \<Rightarrow> vehicle \<Rightarrow> bool option" where
  "shift_date_where p1 p2 v = sql_and (sql_eq (shift_assigned v) p1) (sql_eq (arrival_date v) p2)"

text \<open>
  \<^verbatim>\<open>SELECT COUNT(*), COALESCE(SUM(estimated_labor_hours), 0),
  COUNT(CASE WHEN status = 'delivered' THEN 1 END) FROM vehicles WHERE ...\<close>:
  an aggregate without \<^verbatim>\<open>GROUP BY\<close>, so always one row.
\<close>

definition vehicles_query :: "string option \<Rightarrow> string option \<Rightarrow> vehicle_stats statement" where
  "vehicles_query p1 p2 conn =
     (case vehicles conn of
        None \<Rightarrow> Inl (OperationalError ''no such table: vehicles'')
      | Some vs \<Rightarrow>
          (let rows = filter (\<lambda>v. is_true (shift_date_where p1 p2 v)) vs in
           Inr [\<lparr>row_total_vehicles = int (length rows),
                 row_total_hours = coalesce (sql_sum (map estimated_labor_hours rows)) 0,
                 row_completed_vehicles =
                   sql_count (map (\<lambda>v. if is_true (sql_eq (status v) (Some ''delivered''))
                                        then Some (1::int) else None) rows)\<rparr>]))"

text \<open>\<^verbatim>\<open>work_orders wo JOIN vehicles v ON wo.vehicle_id = v.id\<close>.\<close>

definition wo_join_vehicles :: "work_order list \<Rightarrow> vehicle list \<Rightarrow> (work_order \<times> vehicle) list" where
  "wo_join_vehicles wos vs =
     concat (map (\<lambda>wo. map (\<lambda>v. (wo, v))
                          (filter (\<lambda>v. is_true (sql_eq (vehicle_id wo) (Some (v_id v)))) vs)) wos)"

text \<open>
  \<^verbatim>\<open>SELECT COALESCE(SUM(actual_hours), 0) FROM work_orders wo JOIN vehicles v ...
  WHERE v.shift_assigned = ? AND DATE(v.arrival_time) = ? AND wo.status = 'complete'\<close>.
\<close>

definition completed_query :: "string option \<Rightarrow> string option \<Rightarrow> completed_stats statement" where
  "completed_query p1 p2 conn =
     (case work_orders conn of
        None \<Rightarrow> Inl (OperationalError ''no such table: work_orders'')
      | Some wos \<Rightarrow>
          (case vehicles conn of
             None \<Rightarrow> Inl (OperationalError ''no such table: vehicles'')
           | Some vs \<Rightarrow>
               (let rows = filter (\<lambda>r. is_true (sql_and (shift_date_where p1 p2 (snd r))
                                                   (sql_eq (wo_status (fst r)) (Some ''complete''))))
                                  (wo_join_vehicles wos vs) in
                Inr [\<lparr>row_completed_hours =
                        coalesce (sql_sum (map (\<lambda>r. actual_hours (fst r)) rows)) 0\<rparr>])))"

text \<open>
  \<^verbatim>\<open>SELECT COALESCE(carryover_hours, 0) FROM shift_summaries WHERE shift_date = ?
  AND shift_type = ? ORDER BY created_at DESC LIMIT 1\<close>. Among the rows created at the
  same time SQL leaves the choice open; the model takes the first of the table.
\<close>

definition carryover_query :: "string option \<Rightarrow> string option \<Rightarrow> carryover_stats statement" where
  "carryover_query p1 p2 conn =
     (case shift_summaries conn of
        None \<Rightarrow> Inl (OperationalError ''no such table: shift_summaries'')
      | Some ss \<Rightarrow>
          (let rows = filter (\<lambda>s. is_true (sql_and (sql_eq (shift_date s) p1)
                                                    (sql_eq (shift_type s) p2))) ss;
               ordered = sort_key (\<lambda>s. - created_at s) rows in
           Inr (map (\<lambda>s. \<lparr>row_carryover_hours = coalesce (ss_carryover_hours s) 0\<rparr>)
                    (take 1 ordered))))"

subsection \<open>calculate\_shift\_workload\<close>

record workload_summary =
  shift :: string
  date :: string
  new_hours :: rat
  carryover_hours :: rat
  total_hours :: rat
  completed_hours :: rat
  percent_complete :: int
  vehicles_total :: int
  vehicles_completed :: int

text \<open>
  \<^verbatim>\<open>calculate_shift_workload\<close> (lines 14 to 96). A row that \<^verbatim>\<open>query_one\<close> returns is a
  non-empty dictionary, so it is true in \<^verbatim>\<open>if not vehicle_stats\<close> and in the conditional
  expressions; \<^verbatim>\<open>None\<close> is false. The columns of the rows are prefixed with \<open>row_\<close>, the
  fields of the summary keep the keys of the returned dictionary. An exception of a query
  leaves the function at that query.
\<close>

definition calculate_shift_workload ::
  "clock \<Rightarrow> store \<Rightarrow> string option \<Rightarrow> date option \<Rightarrow> error + workload_summary" where
  "calculate_shift_workload clk st shift_arg target_date_arg =
     (let shift = (case shift_arg of None \<Rightarrow> get_current_shift clk | Some s \<Rightarrow> s);
          target_date = (case target_date_arg of None \<Rightarrow> today clk | Some d \<Rightarrow> d);
          date_str = isoformat target_date
      in
      case query_one st (vehicles_query (Some shift) (Some date_str)) of
        Inl e \<Rightarrow> Inl e
      | Inr vehicle_stats_opt \<Rightarrow>
      (let vehicle_stats =
             (case vehicle_stats_opt of
                None \<Rightarrow> \<lparr>row_total_vehicles = 0, row_total_hours = 0, row_completed_vehicles = 0\<rparr>
              | Some r \<Rightarrow> r)
       in
       case query_one st (completed_query (Some shift) (Some date_str)) of
         Inl e \<Rightarrow> Inl e
       | Inr completed_stats \<Rightarrow>
       (let completed_hours =
              (case completed_stats of None \<Rightarrow> 0 | Some r \<Rightarrow> row_completed_hours r)
        in
        case query_one st (carryover_query (Some date_str) (Some shift)) of
          Inl e \<Rightarrow> Inl e
        | Inr carryover_stats \<Rightarrow>
        (let carryover_hours =
               (case carryover_stats of None \<Rightarrow> 0 | Some r \<Rightarrow> row_carryover_hours r);
             new_hours = row_total_hours vehicle_stats;
             total_hours = new_hours + carryover_hours
         in
         case percentage completed_hours total_hours of
           Inl e \<Rightarrow> Inl e
         | Inr pct \<Rightarrow>
             Inr \<lparr>shift = shift,
                  date = date_str,
                  new_hours = new_hours,
                  carryover_hours = carryover_hours,
                  total_hours = total_hours,
                  completed_hours = completed_hours,
                  percent_complete = pct,
                  vehicles_total = row_total_vehicles vehicle_stats,
                  vehicles_completed = row_completed_vehicles vehicle_stats\<rparr>))))"

section \<open>stage\_breakdown.py\<close>

subsection \<open>The statement of the breakdown\<close>

record stage_row =
  stage_name :: string
  stage_order :: int
  vehicle_count :: int
  hours_remaining :: rat
  hours_completed :: rat

text \<open>
  \<^verbatim>\<open>ON v.current_stage_id = ps.id AND DATE(v.arrival_time) = ?
  AND (? IS NULL OR v.shift_assigned = ?)\<close>.
\<close>

definition stage_on ::
  "string option \<Rightarrow> string option \<Rightarrow> string option \<Rightarrow> production_stage \<Rightarrow> vehicle \<Rightarrow> bool" where
  "stage_on p1 p2 p3 ps v =
     is_true (sql_and (sql_and (sql_eq (current_stage_id v) (Some (ps_id ps)))
                               (sql_eq (arrival_date v) p1))
                      (sql_or (sql_is_null p2) (sql_eq (shift_assigned v) p3)))"

text \<open>\<^verbatim>\<open>v.id\<close> on a joined row: \<^verbatim>\<open>NULL\<close> where the stage has no vehicle.\<close>

definition joined_v_id :: "vehicle option \<Rightarrow> int option" where
  "joined_v_id v = col (\<lambda>x. Some (v_id x)) v"

text \<open>\<^verbatim>\<open>ON wo.vehicle_id = v.id\<close>.\<close>

definition wo_on :: "production_stage \<times> vehicle option \<Rightarrow> work_order \<Rightarrow> bool" where
  "wo_on r wo = is_true (sql_eq (vehicle_id wo) (joined_v_id (snd r)))"

text \<open>\<^verbatim>\<open>GROUP BY ps.id, ps.stage_name, ps.stage_order\<close>.\<close>

definition stage_key :: "production_stage \<Rightarrow> int \<times> string \<times> int" where
  "stage_key ps = (ps_id ps, ps_stage_name ps, ps_stage_order ps)"

text \<open>
  \<^verbatim>\<open>CASE WHEN wo.status != 'complete' THEN wo.estimated_hours ELSE 0 END\<close> and
  \<^verbatim>\<open>CASE WHEN wo.status = 'complete' THEN wo.actual_hours ELSE 0 END\<close>.
\<close>

definition remaining_case :: "work_order option \<Rightarrow> rat option" where
  "remaining_case wo =
     (if is_true (sql_ne (col wo_status wo) (Some ''complete'')) then col estimated_hours wo
      else Some 0)"

definition completed_case :: "work_order option \<Rightarrow> rat option" where
  "completed_case wo =
     (if is_true (sql_eq (col wo_status wo) (Some ''complete'')) then col actual_hours wo
      else Some 0)"

text \<open>The select list, on one group.\<close>

definition stage_select ::
  "(int \<times> string \<times> int) \<times> ((production_stage \<times> vehicle option) \<times> work_order option) list
     \<Rightarrow> stage_row" where
  "stage_select g =
     \<lparr>stage_name = fst (snd (fst g)),
      stage_order = snd (snd (fst g)),
      vehicle_count = sql_count (map (\<lambda>r. joined_v_id (snd (fst r))) (snd g)),
      hours_remaining = coalesce (sql_sum (map (\<lambda>r. remaining_case (snd r)) (snd g))) 0,
      hours_completed = coalesce (sql_sum (map (\<lambda>r. completed_case (snd r)) (snd g))) 0\<rparr>"

text \<open>
  \<^verbatim>\<open>FROM production_stages ps LEFT JOIN vehicles v ON ... LEFT JOIN work_orders wo ON ...
  GROUP BY ... ORDER BY ps.stage_order\<close>. Among stages of the same order SQL leaves the
  sequence open; the model sorts stably.
\<close>

definition stage_query ::
  "string option \<Rightarrow> string option \<Rightarrow> string option \<Rightarrow> stage_row statement" where
  "stage_query p1 p2 p3 conn =
     (case production_stages conn of
        None \<Rightarrow> Inl (OperationalError ''no such table: production_stages'')
      | Some pss \<Rightarrow>
          (case vehicles conn of
             None \<Rightarrow> Inl (OperationalError ''no such table: vehicles'')
           | Some vs \<Rightarrow>
               (case work_orders conn of
                  None \<Rightarrow> Inl (OperationalError ''no such table: work_orders'')
                | Some wos \<Rightarrow>
                    (let joined = left_join wo_on (left_join (stage_on p1 p2 p3) pss vs) wos;
                         groups = group_by (\<lambda>r. stage_key (fst (fst r))) joined;
                         ordered = sort_key (\<lambda>g. snd (snd (fst g))) groups
                     in Inr (map stage_select ordered)))))"

subsection \<open>get\_stage\_breakdown\<close>

text \<open>
  \<^verbatim>\<open>get_stage_breakdown\<close> (stage\_breakdown.py, lines 7 to 57) returns the rows of the
  statement, each with the key \<^verbatim>\<open>percent_complete\<close> added; the field is named
  \<open>stage_percent_complete\<close> here, apart from the field of the workload summary.
\<close>

record stage_summary = stage_row +
  stage_percent_complete :: int

text \<open>The loop over the rows, which sets \<^verbatim>\<open>percent_complete\<close> on each.\<close>

fun calculate_percentages :: "stage_row list \<Rightarrow> error + stage_summary list" where
  "calculate_percentages [] = Inr []"
| "calculate_percentages (row # rest) =
     (let total_h = hours_remaining row + hours_completed row in
      case percentage (hours_completed row) total_h of
        Inl e \<Rightarrow> Inl e
      | Inr p \<Rightarrow>
          (case calculate_percentages rest of
             Inl e \<Rightarrow> Inl e
           | Inr rows \<Rightarrow>
               Inr (\<lparr>stage_name = stage_name row,
                     stage_order = stage_order row,
                     vehicle_count = vehicle_count row,
                     hours_remaining = hours_remaining row,
                     hours_completed = hours_completed row,
                     stage_percent_complete = p\<rparr> # rows)))"

definition get_stage_breakdown ::
  "clock \<Rightarrow> store \<Rightarrow> string option \<Rightarrow> date option \<Rightarrow> error + stage_summary list" where
  "get_stage_breakdown clk st shift_arg target_date_arg =
     (let target_date = (case target_date_arg of None \<Rightarrow> today clk | Some d \<Rightarrow> d);
          date_str = isoformat target_date
      in
      case query_df st (stage_query (Some date_str) shift_arg shift_arg) of
        Inl e \<Rightarrow> Inl e
      | Inr results \<Rightarrow> calculate_percentages results)"

section \<open>Values used in the proofs\<close>

text \<open>The integer that the percentage expression yields; it never raises.\<close>

definition percent_value :: "rat \<Rightarrow> rat \<Rightarrow> int" where
  "percent_value c t =
     (if 0 < t then py_int (round_double (round_double (c / t) * 100)) else 0)"

text \<open>The \<^verbatim>\<open>ON\<close> clause of the stage statement without its condition on the shift.\<close>

definition stage_date_on :: "string \<Rightarrow> production_stage \<Rightarrow> vehicle \<Rightarrow> bool" where
  "stage_date_on d ps v = (current_stage_id v = Some (ps_id ps) \<and> arrival_date v = Some d)"

text \<open>A row of the breakdown with its percentage set, as the loop leaves it.\<close>

definition set_percent_complete :: "stage_row \<Rightarrow> stage_summary" where
  "set_percent_complete row =
     \<lparr>stage_name = stage_name row, stage_order = stage_order row,
      vehicle_count = vehicle_count row, hours_remaining = hours_remaining row,
      hours_completed = hours_completed row,
      stage_percent_complete =
        percent_value (hours_completed row) (hours_remaining row + hours_completed row)\<rparr>"

text \<open>The joined rows of one stage: the stage with its vehicles, each with its work orders.\<close>

definition stage_block ::
  "string option \<Rightarrow> string option \<Rightarrow> string option \<Rightarrow> vehicle list \<Rightarrow> work_order list
     \<Rightarrow> production_stage \<Rightarrow> ((production_stage \<times> vehicle option) \<times> work_order option) list" where
  "stage_block p1 p2 p3 vs wos ps = left_join wo_on (left_join (stage_on p1 p2 p3) [ps] vs) wos"

text \<open>
  A day shift with carryover: one vehicle of 100 estimated hours in the first of two
  stages, a completed work order of 50 actual hours and an open one, 20 hours carried over.
\<close>

definition demo_vehicle :: vehicle where
  "demo_vehicle =
     \<lparr>v_id = 1, shift_assigned = Some ''day'', arrival_date = Some ''2026-01-16'',
      estimated_labor_hours = Some 100, status = Some ''delivered'',
      current_stage_id = Some 1\<rparr>"

definition demo_work_orders :: "work_order list" where
  "demo_work_orders =
     [\<lparr>vehicle_id = Some 1, wo_status = Some ''complete'',
       estimated_hours = Some 40, actual_hours = Some 50\<rparr>,
      \<lparr>vehicle_id = Some 1, wo_status = Some ''open'',
       estimated_hours = Some 70, actual_hours = None\<rparr>]"

definition installation_stage :: production_stage where
  "installation_stage = \<lparr>ps_id = 1, ps_stage_name = ''Installation'', ps_stage_order = 1\<rparr>"

definition ppo_stage :: production_stage where
  "ppo_stage = \<lparr>ps_id = 2, ps_stage_name = ''PPO'', ps_stage_order = 2\<rparr>"

definition demo_db :: database where
  "demo_db =
     \<lparr>vehicles = Some [demo_vehicle],
      work_orders = Some demo_work_orders,
      production_stages = Some [installation_stage, ppo_stage],
      shift_summaries = Some [\<lparr>shift_date = Some ''2026-01-16'', shift_type = Some ''day'',
                                ss_carryover_hours = Some 20, created_at = 5\<rparr>]\<rparr>"

definition demo_store :: store where
  "demo_store =
     \<lparr>database_path = ''data/logistics.db'', path_exists = True, sqlite_connect = Inr demo_db\<rparr>"

definition demo_clock :: clock where
  "demo_clock = \<lparr>now_hour = 7, today = ''2026-01-16''\<rparr>"

definition demo_summary :: workload_summary where
  "demo_summary =
     \<lparr>shift = ''day'', date = ''2026-01-16'', new_hours = 100, carryover_hours = 20,
      total_hours = 120, completed_hours = 50, percent_complete = 41, vehicles_total = 1,
      vehicles_completed = 1\<rparr>"

definition demo_installation :: stage_summary where
  "demo_installation =
     \<lparr>stage_name = ''Installation'', stage_order = 1, vehicle_count = 2,
      hours_remaining = 70, hours_completed = 50, stage_percent_complete = 41\<rparr>"

definition demo_ppo :: stage_summary where
  "demo_ppo =
     \<lparr>stage_name = ''PPO'', stage_order = 2, vehicle_count = 0,
      hours_remaining = 0, hours_completed = 0, stage_percent_complete = 0\<rparr>"

text \<open>The same store with no file at the path, and with a file that lacks a table.\<close>

definition missing_store :: store where
  "missing_store = demo_store\<lparr>path_exists := False\<rparr>"

definition no_summaries_store :: store where
  "no_summaries_store = demo_store\<lparr>sqlite_connect := Inr (demo_db\<lparr>shift_summaries := None\<rparr>)\<rparr>"

definition no_work_orders_store :: store where
  "no_work_orders_store = demo_store\<lparr>sqlite_connect := Inr (demo_db\<lparr>work_orders := None\<rparr>)\<rparr>"

text \<open>The same store with no shift summary recorded.\<close>

definition fresh_store :: store where
  "fresh_store = demo_store\<lparr>sqlite_connect := Inr (demo_db\<lparr>shift_summaries := Some []\<rparr>)\<rparr>"

text \<open>
  A day shift where the work took longer than estimated: 10 estimated hours on the
  vehicle, 15 actual hours on its completed work order.
\<close>

definition overrun_store :: store where
  "overrun_store =
     \<lparr>database_path = ''data/logistics.db'', path_exists = True,
      sqlite_connect = Inr
        \<lparr>vehicles = Some [\<lparr>v_id = 1, shift_assigned = Some ''day'',
                            arrival_date = Some ''2026-01-16'',
                            estimated_labor_hours = Some 10, status = None,
                            current_stage_id = Some 1\<rparr>],
         work_orders = Some [\<lparr>vehicle_id = Some 1, wo_status = Some ''complete'',
                               estimated_hours = Some 10, actual_hours = Some 15\<rparr>],
         production_stages = Some [\<lparr>ps_id = 1, ps_stage_name = ''Installation'',
                                    ps_stage_order = 1\<rparr>],
         shift_summaries = Some []\<rparr>\<rparr>"

text \<open>
  One stage holding one vehicle with two open work orders, of 2 and 3 estimated hours.
\<close>

definition fanout_store :: store where
  "fanout_store =
     \<lparr>database_path = ''data/logistics.db'', path_exists = True,
      sqlite_connect = Inr
        \<lparr>vehicles = Some [\<lparr>v_id = 7, shift_assigned = Some ''day'',
                            arrival_date = Some ''2026-01-16'',
                            estimated_labor_hours = Some 5, status = None,
                            current_stage_id = Some 1\<rparr>],
         work_orders = Some [\<lparr>vehicle_id = Some 7, wo_status = Some ''open'',
                               estimated_hours = Some 2, actual_hours = None\<rparr>,
                             \<lparr>vehicle_id = Some 7, wo_status = Some ''open'',
                               estimated_hours = Some 3, actual_hours = None\<rparr>],
         production_stages = Some [\<lparr>ps_id = 1, ps_stage_name = ''Installation'',
                                    ps_stage_order = 1\<rparr>],
         shift_summaries = Some []\<rparr>\<rparr>"

text \<open>The demo store with its vehicle moved to the night shift.\<close>

definition night_store :: store where
  "night_store =
     demo_store\<lparr>sqlite_connect :=
       Inr (demo_db\<lparr>vehicles := Some (map (\<lambda>v. v\<lparr>shift_assigned := Some ''night''\<rparr>) [demo_vehicle])\<rparr>)\<rparr>"


section \<open>Evaluation on the sample stores\<close>

lemma demo_workload_eval:
  "calculate_shift_workload demo_clock demo_store None None = Inr demo_summary"
  by code_simp

lemma demo_stages_eval:
  "get_stage_breakdown demo_clock demo_store None None = Inr [demo_installation, demo_ppo]"
  by code_simp

section \<open>Rounding to a double\<close>

lemma round_half_even_le: "y \<le> of_int k \<Longrightarrow> round_half_even y \<le> k"
proof -
  assume a: "y \<le> of_int k"
  show ?thesis
  proof (cases "y = of_int k")
    case True
    then show ?thesis by (simp add: round_half_even_def)
  next
    case False
    with a have "y < of_int k" by simp
    then have "\<lfloor>y\<rfloor> < k" by (simp add: floor_less_iff)
    then show ?thesis by (simp add: round_half_even_def Let_def)
  qed
qed

lemma round_half_even_ge: "of_int k \<le> y \<Longrightarrow> k \<le> round_half_even y"
proof -
  assume "of_int k \<le> y"
  then have "k \<le> \<lfloor>y\<rfloor>" by (simp add: le_floor_iff)
  then show ?thesis by (simp add: round_half_even_def Let_def)
qed

lemma pow2_pos: "0 < pow2 k"
  by (simp add: pow2_def)

lemma exp_up_lower: "1 \<le> x \<Longrightarrow> 2 ^ exp_up x \<le> x"
proof (induction x rule: exp_up.induct)
  case (1 x)
  show ?case
  proof (cases "2 \<le> x")
    case True
    then have "1 \<le> x / 2" by simp
    with "1.IH" True have "2 ^ exp_up (x / 2) \<le> x / 2" by simp
    then have "2 * 2 ^ exp_up (x / 2) \<le> x" by simp
    with True show ?thesis by (simp add: exp_up.simps [of x])
  next
    case False
    with "1.prems" show ?thesis by (simp add: exp_up.simps [of x])
  qed
qed

lemma exponent_le:
  assumes "0 < x" and "x < 2 ^ n"
  shows "exponent x \<le> int n"
proof (cases "1 \<le> x")
  case True
  then have "(2::rat) ^ exp_up x \<le> x" by (rule exp_up_lower)
  from this assms(2) have "(2::rat) ^ exp_up x < 2 ^ n" by (rule le_less_trans)
  then have "exp_up x < n" by simp
  with True show ?thesis by (simp add: exponent_def)
next
  case False
  then show ?thesis by (simp add: exponent_def)
qed

lemma round_double_nonneg: "0 \<le> x \<Longrightarrow> 0 \<le> round_double x"
proof -
  assume a: "0 \<le> x"
  have "0 \<le> round_half_even (x / pow2 q)" for q
    using a pow2_pos [of q] by (intro round_half_even_ge) simp
  then show ?thesis
    using pow2_pos by (simp add: round_double_def Let_def less_imp_le)
qed

lemma round_double_le_int:
  assumes "0 \<le> x" and "x \<le> of_int k" and "x < 2 ^ 52"
  shows "round_double x \<le> of_int k"
proof (cases "x = 0")
  case True
  with assms show ?thesis by (simp add: round_double_def)
next
  case False
  with assms have pos: "0 < x" by simp
  define q where "q = max (exponent \<bar>x\<bar> - 52) (- 1074)"
  define n where "n = nat (- q)"
  from pos assms(3) have "exponent x \<le> 52"
    using exponent_le [of x 52] by simp
  with pos have "q \<le> 0" by (simp add: q_def)
  then have p: "pow2 q = 1 / 2 ^ n"
    by (cases "q = 0") (simp_all add: pow2_def n_def)
  have "x / pow2 q = x * 2 ^ n" by (simp add: p)
  also have "\<dots> \<le> of_int k * 2 ^ n"
    using assms(2) by (intro mult_right_mono) simp_all
  also have "\<dots> = of_int (k * 2 ^ n)" by simp
  finally have "round_half_even (x / pow2 q) \<le> k * 2 ^ n"
    by (rule round_half_even_le)
  then have "(of_int (round_half_even (x / pow2 q)) :: rat) \<le> of_int (k * 2 ^ n)"
    by (simp only: of_int_le_iff)
  then have "of_int (round_half_even (x / pow2 q)) * pow2 q \<le> of_int (k * 2 ^ n) * pow2 q"
    using pow2_pos [of q] by (intro mult_right_mono) simp_all
  also have "of_int (k * 2 ^ n) * pow2 q = of_int k"
    by (simp add: p)
  finally show ?thesis
    using False by (simp add: round_double_def Let_def q_def)
qed




section \<open>The percentage\<close>

lemma percentage_value: "percentage c t = Inr (percent_value c t)"
  by (simp add: percentage_def percent_value_def py_truediv_def py_mul_def py_int_def)

lemma double_quotient_bounds:
  assumes "0 \<le> c" and "c \<le> t" and "0 < t"
  shows "0 \<le> round_double (c / t)" and "round_double (c / t) \<le> 1"
proof -
  from assms have q: "0 \<le> c / t" "c / t \<le> 1" by simp_all
  from q(1) show "0 \<le> round_double (c / t)" by (rule round_double_nonneg)
  have "c / t < 2 ^ 52" using q(2) by simp
  with q have "round_double (c / t) \<le> of_int 1"
    by (intro round_double_le_int) simp_all
  then show "round_double (c / t) \<le> 1" by simp
qed

lemma double_product_bounds:
  assumes "0 \<le> c" and "c \<le> t" and "0 < t"
  shows "0 \<le> round_double (round_double (c / t) * 100)"
    and "round_double (round_double (c / t) * 100) \<le> 100"
proof -
  define w where "w = round_double (c / t)"
  from assms have w: "0 \<le> w" "w \<le> 1"
    unfolding w_def by (rule double_quotient_bounds)+
  have lo: "0 \<le> w * 100" using w(1) by simp
  have hi: "w * 100 \<le> 100" using w(2) by simp
  from lo show "0 \<le> round_double (round_double (c / t) * 100)"
    unfolding w_def [symmetric] by (rule round_double_nonneg)
  have "w * 100 < 2 ^ 52" using hi by simp
  with lo hi have "round_double (w * 100) \<le> of_int 100"
    by (intro round_double_le_int) simp_all
  then show "round_double (round_double (c / t) * 100) \<le> 100"
    by (simp add: w_def)
qed


lemma percent_value_range:
  assumes "0 \<le> c" and "c \<le> t"
  shows "0 \<le> percent_value c t \<and> percent_value c t \<le> 100"
proof (cases "0 < t")
  case False
  then show ?thesis by (simp add: percent_value_def)
next
  case True
  define p where "p = round_double (round_double (c / t) * 100)"
  from assms True have p: "0 \<le> p" "p \<le> 100"
    unfolding p_def by (rule double_product_bounds)+
  then have "0 \<le> \<lfloor>p\<rfloor>" "\<lfloor>p\<rfloor> \<le> 100"
    by (simp_all add: floor_le_iff le_floor_iff)
  with True p(1) show ?thesis
    by (simp add: percent_value_def py_int_def p_def)
qed



lemma workload_percentage:
  "calculate_shift_workload clk st sa da = Inr s \<Longrightarrow>
     percent_complete s = percent_value (completed_hours s) (total_hours s)"
  by (auto simp: calculate_shift_workload_def Let_def percentage_value split: sum.splits)

lemma calculate_percentages_value:
  "calculate_percentages rows = Inr (map set_percent_complete rows)"
  by (induction rows) (simp_all add: percentage_value Let_def set_percent_complete_def)

lemma stage_percentage:
  "get_stage_breakdown clk st sa da = Inr rs \<Longrightarrow> r \<in> set rs \<Longrightarrow>
     stage_percent_complete r =
       percent_value (hours_completed r) (hours_remaining r + hours_completed r)"
  by (auto simp: get_stage_breakdown_def Let_def calculate_percentages_value
      set_percent_complete_def split: sum.splits)

section \<open>The joins and groups of the stage statement\<close>

lemma left_join_Nil: "left_join on [] ys = []"
  by (simp add: left_join_def)

lemma left_join_single:
  "left_join on [x] ys =
     (case filter (on x) ys of [] \<Rightarrow> [(x, None)] | ms \<Rightarrow> map (\<lambda>y. (x, Some y)) ms)"
  by (simp add: left_join_def)

lemma left_join_append:
  "left_join on (xs @ xs') ys = left_join on xs ys @ left_join on xs' ys"
  by (simp add: left_join_def)

lemma left_join_Cons:
  "left_join on (x # xs) ys = left_join on [x] ys @ left_join on xs ys"
  using left_join_append [of on "[x]" xs ys] by simp

lemma left_join_single_nonempty: "left_join on [x] ys \<noteq> []"
  by (simp add: left_join_single split: list.splits)

lemma left_join_single_fst: "r \<in> set (left_join on [x] ys) \<Longrightarrow> fst r = x"
  by (cases "filter (on x) ys") (auto simp: left_join_single)

lemma left_join_nonempty: "xs \<noteq> [] \<Longrightarrow> left_join on xs ys \<noteq> []"
proof (cases xs)
  case (Cons x xs')
  then show ?thesis
    using left_join_single_nonempty [of on x ys] by (simp add: left_join_Cons [of on x xs'])
qed simp

lemma left_join_fst: "r \<in> set (left_join on xs ys) \<Longrightarrow> fst r \<in> set xs"
proof (induction xs)
  case Nil
  then show ?case by (simp add: left_join_Nil)
next
  case (Cons x xs)
  from Cons.prems have "r \<in> set (left_join on [x] ys) \<or> r \<in> set (left_join on xs ys)"
    by (simp add: left_join_Cons [of on x xs])
  then show ?case
    using left_join_single_fst [of r on x ys] Cons.IH by auto
qed

lemma joined_blocks:
  "left_join wo_on (left_join (stage_on p1 p2 p3) pss vs) wos =
     concat (map (stage_block p1 p2 p3 vs wos) pss)"
proof (induction pss)
  case Nil
  then show ?case by (simp add: left_join_Nil)
next
  case (Cons ps pss)
  have "left_join wo_on (left_join (stage_on p1 p2 p3) (ps # pss) vs) wos =
        left_join wo_on (left_join (stage_on p1 p2 p3) [ps] vs) wos @
        left_join wo_on (left_join (stage_on p1 p2 p3) pss vs) wos"
    by (simp only: left_join_Cons [of _ ps pss] left_join_append)
  with Cons show ?case by (simp add: stage_block_def)
qed

lemma stage_block_nonempty: "stage_block p1 p2 p3 vs wos ps \<noteq> []"
  unfolding stage_block_def
  by (intro left_join_nonempty left_join_single_nonempty)

lemma stage_block_stage:
  assumes "r \<in> set (stage_block p1 p2 p3 vs wos ps)"
  shows "fst (fst r) = ps"
proof -
  from assms have "fst r \<in> set (left_join (stage_on p1 p2 p3) [ps] vs)"
    unfolding stage_block_def by (rule left_join_fst)
  then show ?thesis by (rule left_join_single_fst)
qed

lemma remdups_constant_prefix:
  "ys \<noteq> [] \<Longrightarrow> set ys = {k} \<Longrightarrow> k \<notin> set zs \<Longrightarrow> remdups (ys @ zs) = k # remdups zs"
proof (induction ys)
  case Nil
  then show ?case by simp
next
  case (Cons y ys)
  then have y: "y = k" by auto
  show ?case
  proof (cases "ys = []")
    case True
    with Cons.prems y show ?thesis by simp
  next
    case False
    from Cons.prems(2) have "set ys \<subseteq> {k}" by auto
    from subset_singletonD [OF this] False have "set ys = {k}" by simp
    with False Cons have "remdups (ys @ zs) = k # remdups zs" by simp
    moreover from \<open>set ys = {k}\<close> have "k \<in> set (ys @ zs)" by simp
    ultimately show ?thesis using y by simp
  qed
qed

lemma remdups_block_keys:
  assumes "distinct (map key xs)"
    and "\<And>x. x \<in> set xs \<Longrightarrow> blk x \<noteq> []"
    and "\<And>x r. x \<in> set xs \<Longrightarrow> r \<in> set (blk x) \<Longrightarrow> rkey r = key x"
  shows "remdups (map rkey (concat (map blk xs))) = map key xs"
  using assms
proof (induction xs)
  case Nil
  then show ?case by simp
next
  case (Cons x xs)
  let ?rest = "map rkey (concat (map blk xs))"
  have IH: "remdups ?rest = map key xs"
    using Cons by simp
  have ne: "map rkey (blk x) \<noteq> []"
    using Cons.prems(2) [of x] by simp
  have one: "set (map rkey (blk x)) = {key x}"
  proof -
    have "rkey ` set (blk x) \<subseteq> {key x}" using Cons.prems(3) [of x] by auto
    from subset_singletonD [OF this] Cons.prems(2) [of x] show ?thesis by simp
  qed
  have "set ?rest \<subseteq> key ` set xs"
    using Cons.prems(3) by auto
  moreover have "key x \<notin> key ` set xs"
    using Cons.prems(1) by simp
  ultimately have notin: "key x \<notin> set ?rest" by blast
  have "remdups (map rkey (blk x) @ ?rest) = key x # remdups ?rest"
    using ne one notin by (rule remdups_constant_prefix)
  with IH show ?case by simp
qed

lemma filter_block_key:
  assumes "distinct (map key xs)"
    and "\<And>x r. x \<in> set xs \<Longrightarrow> r \<in> set (blk x) \<Longrightarrow> rkey r = key x"
    and "x \<in> set xs"
  shows "filter (\<lambda>r. rkey r = key x) (concat (map blk xs)) = blk x"
  using assms
proof (induction xs)
  case Nil
  then show ?case by simp
next
  case (Cons y ys)
  have own: "\<And>z. z \<in> set (y # ys) \<Longrightarrow>
               filter (\<lambda>r. rkey r = key x) (blk z) = (if key z = key x then blk z else [])"
    using Cons.prems(2) by (auto intro: filter_True filter_False)
  show ?case
  proof (cases "x = y")
    case True
    have ky: "key y \<notin> key ` set ys"
      using Cons.prems(1) by simp
    have "key z \<noteq> key x" if "z \<in> set ys" for z
    proof
      assume "key z = key x"
      with that True have "key y \<in> key ` set ys" by (metis imageI)
      with ky show False ..
    qed
    then have "\<And>z. z \<in> set ys \<Longrightarrow> filter (\<lambda>r. rkey r = key x) (blk z) = []"
      using own by simp
    then have "filter (\<lambda>r. rkey r = key x) (concat (map blk ys)) = []"
      by (simp add: filter_concat)
    with own [of y] True show ?thesis by simp
  next
    case False
    with Cons.prems have xin: "x \<in> set ys" by simp
    then have "key x \<in> key ` set ys" by (rule imageI)
    moreover have "key y \<notin> key ` set ys"
      using Cons.prems(1) by simp
    ultimately have "key y \<noteq> key x" by metis
    then have "filter (\<lambda>r. rkey r = key x) (blk y) = []"
      using own [of y] by simp
    moreover have "filter (\<lambda>r. rkey r = key x) (concat (map blk ys)) = blk x"
      using Cons.IH Cons.prems xin by simp
    ultimately show ?thesis by simp
  qed
qed

lemma group_by_blocks:
  assumes "distinct (map key xs)"
    and "\<And>x. x \<in> set xs \<Longrightarrow> blk x \<noteq> []"
    and "\<And>x r. x \<in> set xs \<Longrightarrow> r \<in> set (blk x) \<Longrightarrow> rkey r = key x"
  shows "group_by rkey (concat (map blk xs)) = map (\<lambda>x. (key x, blk x)) xs"
proof -
  have "group_by rkey (concat (map blk xs)) =
          map (\<lambda>x. (key x, filter (\<lambda>r. rkey r = key x) (concat (map blk xs)))) xs"
    by (simp add: group_by_def remdups_block_keys [OF assms] comp_def)
  also have "\<dots> = map (\<lambda>x. (key x, blk x)) xs"
    using filter_block_key [OF assms(1) assms(3)] by (intro map_cong) simp_all
  finally show ?thesis .
qed


lemma stage_key_inj: "stage_key (x :: production_stage) = stage_key y \<Longrightarrow> x = y"
  by (cases x, cases y) (simp add: stage_key_def)

lemma distinct_stage_key:
  "distinct (pss :: production_stage list) \<Longrightarrow> distinct (map stage_key pss)"
  by (simp add: distinct_map inj_on_def) (blast dest: stage_key_inj)

lemma stage_query_blocks:
  assumes "production_stages db = Some pss" and "vehicles db = Some vs"
    and "work_orders db = Some wos" and "distinct pss"
  shows "stage_query p1 p2 p3 db =
           Inr (map stage_select
                  (sort_key (\<lambda>g. snd (snd (fst g)))
                     (map (\<lambda>ps. (stage_key ps, stage_block p1 p2 p3 vs wos ps)) pss)))"
proof -
  have "group_by (\<lambda>r. stage_key (fst (fst r))) (concat (map (stage_block p1 p2 p3 vs wos) pss)) =
          map (\<lambda>ps. (stage_key ps, stage_block p1 p2 p3 vs wos ps)) pss"
  proof (rule group_by_blocks)
    show "distinct (map stage_key pss)"
      using assms(4) by (rule distinct_stage_key)
  next
    fix ps
    show "stage_block p1 p2 p3 vs wos ps \<noteq> []" by (rule stage_block_nonempty)
  next
    fix ps r
    assume "r \<in> set (stage_block p1 p2 p3 vs wos ps)"
    then show "stage_key (fst (fst r)) = stage_key ps"
      by (simp add: stage_block_stage)
  qed
  then show ?thesis
    using assms(1-3) by (simp add: stage_query_def Let_def joined_blocks)
qed

lemma sql_eq_null_right: "sql_eq a None = None"
  by (simp add: sql_eq_def split: option.splits)

lemma stage_block_no_vehicle:
  assumes "\<And>v. v \<in> set vs \<Longrightarrow> \<not> stage_on p1 p2 p3 ps v"
  shows "stage_block p1 p2 p3 vs wos ps = [((ps, None), None)]"
proof -
  have "filter (stage_on p1 p2 p3 ps) vs = []"
    using assms by (simp add: filter_empty_conv)
  then have j1: "left_join (stage_on p1 p2 p3) [ps] vs = [(ps, None)]"
    by (simp add: left_join_single)
  have "filter (wo_on (ps, None)) wos = []"
    by (simp add: filter_empty_conv wo_on_def joined_v_id_def col_def sql_eq_null_right is_true_def)
  then have "left_join wo_on [(ps, None)] wos = [((ps, None), None)]"
    by (simp add: left_join_single)
  then show ?thesis
    by (simp only: stage_block_def j1)
qed

lemma stage_select_no_vehicle:
  "stage_select (stage_key ps, [((ps, None), None)]) =
     \<lparr>stage_name = ps_stage_name ps, stage_order = ps_stage_order ps, vehicle_count = 0,
      hours_remaining = 0, hours_completed = 0\<rparr>"
  by (simp add: stage_select_def stage_key_def sql_count_def joined_v_id_def col_def
      remaining_case_def completed_case_def sql_ne_def sql_eq_def is_true_def sql_sum_def
      coalesce_def)


lemma stage_breakdown_blocks:
  assumes "get_connection st = Inr db"
    and "production_stages db = Some pss" and "vehicles db = Some vs"
    and "work_orders db = Some wos" and "distinct pss"
    and "d = isoformat (case da of None \<Rightarrow> today clk | Some t \<Rightarrow> t)"
  shows "get_stage_breakdown clk st sa da =
           Inr (map set_percent_complete
                  (map stage_select
                     (sort_key (\<lambda>g. snd (snd (fst g)))
                        (map (\<lambda>ps. (stage_key ps, stage_block (Some d) sa sa vs wos ps)) pss))))"
  using assms(1,6)
  by (simp add: get_stage_breakdown_def Let_def query_df_def calculate_percentages_value
      stage_query_blocks [OF assms(2-5)])


lemma set_percent_complete_fields:
  "stage_name (set_percent_complete row) = stage_name row"
  "stage_order (set_percent_complete row) = stage_order row"
  "vehicle_count (set_percent_complete row) = vehicle_count row"
  "hours_remaining (set_percent_complete row) = hours_remaining row"
  "hours_completed (set_percent_complete row) = hours_completed row"
  by (simp_all add: set_percent_complete_def)

lemma stage_select_key:
  "stage_name (stage_select g) = fst (snd (fst g))"
  "stage_order (stage_select g) = snd (snd (fst g))"
  by (simp_all add: stage_select_def)

lemma wo_on_vehicle:
  "wo_on (ps, Some v) = (\<lambda>wo. vehicle_id wo = Some (v_id v))"
proof
  fix wo
  show "wo_on (ps, Some v) wo = (vehicle_id wo = Some (v_id v))"
    by (cases "vehicle_id wo")
       (simp_all add: wo_on_def joined_v_id_def col_def sql_eq_def is_true_def)
qed

lemma left_join_count:
  "length (left_join on xs ys) = (\<Sum>x\<leftarrow>xs. max 1 (length (filter (on x) ys)))"
proof (induction xs)
  case Nil
  then show ?case by (simp add: left_join_Nil)
next
  case (Cons x xs)
  have "length (left_join on [x] ys) = max 1 (length (filter (on x) ys))"
    by (cases "filter (on x) ys") (simp_all add: left_join_single)
  with Cons show ?case by (simp add: left_join_Cons [of on x xs])
qed

lemma stage_block_matched:
  assumes "filter (stage_on p1 p2 p3 ps) vs \<noteq> []"
  shows "stage_block p1 p2 p3 vs wos ps =
           left_join wo_on (map (\<lambda>v. (ps, Some v)) (filter (stage_on p1 p2 p3 ps) vs)) wos"
  using assms by (cases "filter (stage_on p1 p2 p3 ps) vs") (simp_all add: stage_block_def left_join_single)

lemma stage_block_vehicle_count:
  "vehicle_count (stage_select (k, stage_block p1 p2 p3 vs wos ps)) =
     int (\<Sum>v\<leftarrow>filter (stage_on p1 p2 p3 ps) vs.
            max 1 (length (filter (\<lambda>wo. vehicle_id wo = Some (v_id v)) wos)))"
proof (cases "filter (stage_on p1 p2 p3 ps) vs = []")
  case True
  then have "\<And>v. v \<in> set vs \<Longrightarrow> \<not> stage_on p1 p2 p3 ps v"
    by (simp add: filter_empty_conv)
  then have "stage_block p1 p2 p3 vs wos ps = [((ps, None), None)]"
    by (rule stage_block_no_vehicle)
  with True show ?thesis
    by (simp add: stage_select_def sql_count_def joined_v_id_def col_def)
next
  case False
  let ?ms = "filter (stage_on p1 p2 p3 ps) vs"
  let ?blk = "left_join wo_on (map (\<lambda>v. (ps, Some v)) ?ms) wos"
  have blk: "stage_block p1 p2 p3 vs wos ps = ?blk"
    using False by (rule stage_block_matched)
  have "joined_v_id (snd (fst r)) \<noteq> None" if "r \<in> set ?blk" for r
  proof -
    from that have "fst r \<in> set (map (\<lambda>v. (ps, Some v)) ?ms)" by (rule left_join_fst)
    then show ?thesis by (auto simp: joined_v_id_def col_def)
  qed
  then have "sql_count (map (\<lambda>r. joined_v_id (snd (fst r))) ?blk) = int (length ?blk)"
    by (simp add: sql_count_def)
  moreover have "length ?blk =
      (\<Sum>v\<leftarrow>?ms. max 1 (length (filter (\<lambda>wo. vehicle_id wo = Some (v_id v)) wos)))"
    by (simp add: left_join_count comp_def wo_on_vehicle)
  ultimately show ?thesis
    by (simp add: stage_select_def blk)
qed

lemma stage_breakdown_vehicle_count:
  assumes "get_connection st = Inr db"
    and "production_stages db = Some pss" and "vehicles db = Some vs"
    and "work_orders db = Some wos" and "distinct pss"
    and "d = isoformat (case da of None \<Rightarrow> today clk | Some t \<Rightarrow> t)"
    and "ps \<in> set pss"
  shows "\<exists>rs r. get_stage_breakdown clk st sa da = Inr rs \<and> r \<in> set rs \<and>
           stage_name r = ps_stage_name ps \<and> stage_order r = ps_stage_order ps \<and>
           vehicle_count r =
             int (\<Sum>v\<leftarrow>filter (stage_on (Some d) sa sa ps) vs.
                    max 1 (length (filter (\<lambda>wo. vehicle_id wo = Some (v_id v)) wos)))"
proof -
  let ?g = "(stage_key ps, stage_block (Some d) sa sa vs wos ps)"
  let ?r = "set_percent_complete (stage_select ?g)"
  have "stage_name ?r = ps_stage_name ps" "stage_order ?r = ps_stage_order ps"
    by (simp_all add: set_percent_complete_fields stage_select_key stage_key_def)
  moreover have "vehicle_count ?r =
             int (\<Sum>v\<leftarrow>filter (stage_on (Some d) sa sa ps) vs.
                    max 1 (length (filter (\<lambda>wo. vehicle_id wo = Some (v_id v)) wos)))"
    by (simp only: set_percent_complete_fields stage_block_vehicle_count)
  moreover have "?r \<in> set (map set_percent_complete (map stage_select
            (sort_key (\<lambda>g. snd (snd (fst g)))
               (map (\<lambda>ps. (stage_key ps, stage_block (Some d) sa sa vs wos ps)) pss))))"
    using assms(7) by simp
  ultimately show ?thesis
    using stage_breakdown_blocks [OF assms(1-6), of sa] by blast
qed

section \<open>The stage statement without a shift\<close>

lemma stage_on_null_shift:
  "stage_on (Some d) None p3 ps v =
     (current_stage_id v = Some (ps_id ps) \<and> arrival_date v = Some d)"
  by (cases "current_stage_id v"; cases "arrival_date v")
     (auto simp: stage_on_def is_true_def sql_and_def sql_or_def sql_eq_def sql_is_null_def)

lemma left_join_map_right:
  assumes "\<And>x y. on x (g y) = on x y"
  shows "left_join on xs (map g ys) =
           map (\<lambda>r. (fst r, map_option g (snd r))) (left_join on xs ys)"
proof (induction xs)
  case Nil
  then show ?case by (simp add: left_join_Nil)
next
  case (Cons x xs)
  have f: "filter (on x) (map g ys) = map g (filter (on x) ys)"
    by (simp add: filter_map comp_def assms)
  have "left_join on [x] (map g ys) =
          map (\<lambda>r. (fst r, map_option g (snd r))) (left_join on [x] ys)"
    by (cases "filter (on x) ys") (simp_all add: left_join_single f)
  with Cons show ?case
    by (simp add: left_join_Cons [of on x xs])
qed

lemma left_join_map_left:
  assumes "\<And>x y. on (h x) y = on x y"
  shows "left_join on (map h xs) ys = map (\<lambda>r. (h (fst r), snd r)) (left_join on xs ys)"
proof (induction xs)
  case Nil
  then show ?case by (simp add: left_join_Nil)
next
  case (Cons x xs)
  have f: "filter (on (h x)) ys = filter (on x) ys"
    by (rule filter_cong) (simp_all add: assms)
  have "left_join on [h x] ys = map (\<lambda>r. (h (fst r), snd r)) (left_join on [x] ys)"
    by (cases "filter (on x) ys") (simp_all add: left_join_single f)
  with Cons show ?case
    by (simp add: left_join_Cons [of on x xs] left_join_Cons [of on "h x" "map h xs"])
qed

lemma group_by_map:
  assumes "\<And>r. key (h r) = key r"
  shows "group_by key (map h rows) = map (\<lambda>g. (fst g, map h (snd g))) (group_by key rows)"
  by (simp add: group_by_def filter_map comp_def assms)

lemma insort_key_map:
  assumes "\<And>x. f (h x) = f x"
  shows "insort_key f (h x) (map h xs) = map h (insort_key f x xs)"
  by (induction xs) (simp_all add: assms)

lemma sort_key_map:
  assumes "\<And>x. f (h x) = f x"
  shows "sort_key f (map h xs) = map h (sort_key f xs)"
  by (induction xs) (simp_all add: insort_key_map [of f h, OF assms])

lemma stage_select_map:
  assumes "\<And>r. joined_v_id (snd (fst (H r))) = joined_v_id (snd (fst r))"
    and "\<And>r. snd (H r) = snd r"
  shows "stage_select (k, map H rows) = stage_select (k, rows)"
  by (simp add: stage_select_def comp_def assms)

lemma joined_v_id_reassigned:
  "joined_v_id (map_option (\<lambda>v. v\<lparr>shift_assigned := f v\<rparr>) vo) = joined_v_id vo"
  by (cases vo) (simp_all add: joined_v_id_def col_def)

lemma stage_query_null_shift_reassigned:
  assumes "vehicles db = Some vs"
  shows "stage_query (Some d) None None
           (db\<lparr>vehicles := Some (map (\<lambda>v. v\<lparr>shift_assigned := f v\<rparr>) vs)\<rparr>) =
         stage_query (Some d) None None db"
proof (cases "production_stages db")
  case None
  then show ?thesis by (simp add: stage_query_def)
next
  case (Some pss)
  show ?thesis
  proof (cases "work_orders db")
    case None
    with Some assms show ?thesis by (simp add: stage_query_def)
  next
    case wos: (Some wos)
    define g where "g = (\<lambda>v. v\<lparr>shift_assigned := f v\<rparr>)"
    define h :: "production_stage \<times> vehicle option \<Rightarrow> production_stage \<times> vehicle option"
      where "h = (\<lambda>r. (fst r, map_option g (snd r)))"
    define H :: "(production_stage \<times> vehicle option) \<times> work_order option \<Rightarrow>
        (production_stage \<times> vehicle option) \<times> work_order option"
      where "H = (\<lambda>r. (h (fst r), snd r))"
    let ?j1 = "left_join (stage_on (Some d) None None) pss vs"
    let ?j2 = "left_join wo_on ?j1 wos"
    let ?key = "\<lambda>r :: (production_stage \<times> vehicle option) \<times> work_order option.
                  stage_key (fst (fst r))"
    let ?ord = "\<lambda>g :: (int \<times> string \<times> int) \<times>
                  ((production_stage \<times> vehicle option) \<times> work_order option) list.
                  snd (snd (fst g))"
    have on: "\<And>ps v. stage_on (Some d) None None ps (g v) = stage_on (Some d) None None ps v"
      by (simp add: stage_on_null_shift g_def)
    have j1: "left_join (stage_on (Some d) None None) pss (map g vs) = map h ?j1"
      unfolding h_def by (rule left_join_map_right) (rule on)
    have won: "\<And>r wo. wo_on (h r) wo = wo_on r wo"
      by (simp add: wo_on_def h_def g_def joined_v_id_reassigned)
    have j2: "left_join wo_on (map h ?j1) wos = map H ?j2"
      unfolding H_def by (rule left_join_map_left) (rule won)
    have grp: "group_by ?key (map H ?j2) =
                 map (\<lambda>g. (fst g, map H (snd g))) (group_by ?key ?j2)"
      by (rule group_by_map) (simp add: H_def h_def)
    have srt: "sort_key ?ord (map (\<lambda>g. (fst g, map H (snd g))) (group_by ?key ?j2)) =
                 map (\<lambda>g. (fst g, map H (snd g))) (sort_key ?ord (group_by ?key ?j2))"
      by (rule sort_key_map) simp
    have sel: "\<And>g. stage_select (fst g, map H (snd g)) = stage_select g"
    proof -
      fix g :: "(int \<times> string \<times> int) \<times>
                  ((production_stage \<times> vehicle option) \<times> work_order option) list"
      have "stage_select (fst g, map H (snd g)) = stage_select (fst g, snd g)"
        by (rule stage_select_map) (simp_all add: H_def h_def g_def joined_v_id_reassigned)
      then show "stage_select (fst g, map H (snd g)) = stage_select g" by simp
    qed
    have "map stage_select (sort_key ?ord (group_by ?key
            (left_join wo_on (left_join (stage_on (Some d) None None) pss (map g vs)) wos))) =
          map stage_select (sort_key ?ord (group_by ?key (map H ?j2)))"
      by (simp only: j1 j2)
    also have "\<dots> = map stage_select
            (map (\<lambda>g. (fst g, map H (snd g))) (sort_key ?ord (group_by ?key ?j2)))"
      by (simp only: grp srt)
    also have "\<dots> = map stage_select (sort_key ?ord (group_by ?key ?j2))"
      by (simp add: sel)
    finally show ?thesis
      using Some wos assms by (simp add: stage_query_def Let_def g_def)
  qed
qed

lemma stage_on_null_shift_fun: "stage_on (Some d) None None = stage_date_on d"
  by (intro ext) (simp add: stage_on_null_shift stage_date_on_def)

lemma stage_breakdown_null_shift:
  assumes "get_connection st = Inr db"
    and "production_stages db = Some pss" and "vehicles db = Some vs"
    and "work_orders db = Some wos"
    and "d = isoformat (case da of None \<Rightarrow> today clk | Some t \<Rightarrow> t)"
  shows "get_stage_breakdown clk st None da =
           Inr (map set_percent_complete
                  (map stage_select
                     (sort_key (\<lambda>g. snd (snd (fst g)))
                        (group_by (\<lambda>r. stage_key (fst (fst r)))
                           (left_join wo_on (left_join (stage_date_on d) pss vs) wos)))))"
  using assms
  by (simp add: get_stage_breakdown_def Let_def query_df_def stage_query_def
      calculate_percentages_value stage_on_null_shift_fun)

section \<open>The access layer\<close>

lemma missing_store_query_df:
  "\<not> path_exists st \<Longrightarrow>
     query_df st stmt = Inl (FileNotFoundError (''Database not found: '' @ database_path st))"
  by (simp add: query_df_def get_connection_def)

lemma missing_store_query_one:
  "\<not> path_exists st \<Longrightarrow>
     query_one st stmt = Inl (FileNotFoundError (''Database not found: '' @ database_path st))"
  by (simp add: query_one_def missing_store_query_df)

lemma py_getitem_first: "py_getitem (x # xs) 0 = Inr x"
  by (simp add: py_getitem_def)

section \<open>Claims\<close>




text \<open>
  C3, as amended. \<^verbatim>\<open>percent_complete\<close> is always an integer. It lies in \<open>[0, 100]\<close> in a
  workload summary whose completed hours lie between \<open>0\<close> and its total hours, and in a
  stage summary whose remaining and completed hours are not negative. The code does not
  clamp the ratio.
\<close>

theorem percent_complete_range:
  "(\<forall>s. calculate_shift_workload clk st sa da = Inr s \<and>
        0 \<le> completed_hours s \<and> completed_hours s \<le> total_hours s \<longrightarrow>
        0 \<le> percent_complete s \<and> percent_complete s \<le> 100) \<and>
   (\<forall>rs r. get_stage_breakdown clk st sa da = Inr rs \<and> r \<in> set rs \<and>
        0 \<le> hours_remaining r \<and> 0 \<le> hours_completed r \<longrightarrow>
        0 \<le> stage_percent_complete r \<and> stage_percent_complete r \<le> 100)"
proof (intro conjI allI impI)
  fix s
  assume a: "calculate_shift_workload clk st sa da = Inr s \<and>
             0 \<le> completed_hours s \<and> completed_hours s \<le> total_hours s"
  then have "percent_complete s = percent_value (completed_hours s) (total_hours s)"
    using workload_percentage by blast
  with a percent_value_range [of "completed_hours s" "total_hours s"]
  show "0 \<le> percent_complete s" and "percent_complete s \<le> 100" by simp_all
next
  fix rs r
  assume a: "get_stage_breakdown clk st sa da = Inr rs \<and> r \<in> set rs \<and>
             0 \<le> hours_remaining r \<and> 0 \<le> hours_completed r"
  then have "stage_percent_complete r =
               percent_value (hours_completed r) (hours_remaining r + hours_completed r)"
    using stage_percentage by blast
  with a percent_value_range [of "hours_completed r" "hours_remaining r + hours_completed r"]
  show "0 \<le> stage_percent_complete r" and "stage_percent_complete r \<le> 100" by simp_all
qed

theorem percent_complete_range_witness:
  "calculate_shift_workload demo_clock demo_store None None = Inr demo_summary \<and>
   0 \<le> completed_hours demo_summary \<and> completed_hours demo_summary \<le> total_hours demo_summary \<and>
   0 \<le> percent_complete demo_summary \<and> percent_complete demo_summary \<le> 100 \<and>
   get_stage_breakdown demo_clock demo_store None None = Inr [demo_installation, demo_ppo] \<and>
   demo_installation \<in> set [demo_installation, demo_ppo] \<and>
   0 \<le> hours_remaining demo_installation \<and> 0 \<le> hours_completed demo_installation \<and>
   0 \<le> stage_percent_complete demo_installation \<and> stage_percent_complete demo_installation \<le> 100"
proof -
  note T = percent_complete_range [of demo_clock demo_store None None]
  have s: "0 \<le> completed_hours demo_summary" "completed_hours demo_summary \<le> total_hours demo_summary"
    by (simp_all add: demo_summary_def)
  have r: "demo_installation \<in> set [demo_installation, demo_ppo]"
    "0 \<le> hours_remaining demo_installation" "0 \<le> hours_completed demo_installation"
    by (simp_all add: demo_installation_def)
  have a: "0 \<le> percent_complete demo_summary \<and> percent_complete demo_summary \<le> 100"
    using conjunct1 [OF T] demo_workload_eval s by blast
  have b: "0 \<le> stage_percent_complete demo_installation \<and>
           stage_percent_complete demo_installation \<le> 100"
    using conjunct2 [OF T] demo_stages_eval r by blast
  show ?thesis using a b s r demo_workload_eval demo_stages_eval by blast
qed

text \<open>
  C3 as stated fails: actual hours are not bounded by estimated hours, and a shift whose
  completed work orders took 15 hours against 10 estimated is reported at 150 percent.
\<close>

theorem percent_complete_above_100:
  "calculate_shift_workload demo_clock overrun_store (Some ''day'') (Some ''2026-01-16'') =
     Inr \<lparr>shift = ''day'', date = ''2026-01-16'', new_hours = 10, carryover_hours = 0,
          total_hours = 10, completed_hours = 15, percent_complete = 150, vehicles_total = 1,
          vehicles_completed = 0\<rparr>"
  by code_simp



text \<open>
  C5. The shift is \<^verbatim>\<open>day\<close> exactly when the hour \<open>h\<close> of the clock satisfies \<open>6 \<le> h < 18\<close>,
  and \<^verbatim>\<open>night\<close> exactly otherwise; hours 6 and 17 give day, hours 18, 23, 0 and 5 give night.
\<close>

theorem get_current_shift_rule:
  "(get_current_shift clk = ''day'') = (6 \<le> now_hour clk \<and> now_hour clk < 18) \<and>
   (get_current_shift clk = ''night'') = (\<not> (6 \<le> now_hour clk \<and> now_hour clk < 18)) \<and>
   get_current_shift \<lparr>now_hour = 6, today = d\<rparr> = ''day'' \<and>
   get_current_shift \<lparr>now_hour = 17, today = d\<rparr> = ''day'' \<and>
   get_current_shift \<lparr>now_hour = 18, today = d\<rparr> = ''night'' \<and>
   get_current_shift \<lparr>now_hour = 23, today = d\<rparr> = ''night'' \<and>
   get_current_shift \<lparr>now_hour = 0, today = d\<rparr> = ''night'' \<and>
   get_current_shift \<lparr>now_hour = 5, today = d\<rparr> = ''night''"
  by (simp add: get_current_shift_def Let_def)

text \<open>
  C8. For every shift and date, when the first two queries return and the carryover query
  returns no record, \<^verbatim>\<open>calculate_shift_workload\<close> returns a summary (it does not raise),
  whose \<^verbatim>\<open>carryover_hours\<close> is \<open>0\<close> and whose \<^verbatim>\<open>total_hours\<close> equals its \<^verbatim>\<open>new_hours\<close>.
\<close>

theorem absent_carryover:
  assumes "query_one st (vehicles_query (Some sh) (Some (isoformat d))) = Inr vehicle_stats"
    and "query_one st (completed_query (Some sh) (Some (isoformat d))) = Inr completed_stats"
    and "query_one st (carryover_query (Some (isoformat d)) (Some sh)) = Inr None"
  shows "\<exists>s. calculate_shift_workload clk st (Some sh) (Some d) = Inr s \<and>
             carryover_hours s = 0 \<and> total_hours s = new_hours s"
  using assms by (simp add: calculate_shift_workload_def Let_def percentage_value)

theorem absent_carryover_witness:
  "query_one fresh_store (vehicles_query (Some ''day'') (Some (isoformat ''2026-01-16''))) =
     Inr (Some \<lparr>row_total_vehicles = 1, row_total_hours = 100, row_completed_vehicles = 1\<rparr>) \<and>
   query_one fresh_store (completed_query (Some ''day'') (Some (isoformat ''2026-01-16''))) =
     Inr (Some \<lparr>row_completed_hours = 50\<rparr>) \<and>
   query_one fresh_store (carryover_query (Some (isoformat ''2026-01-16'')) (Some ''day'')) = Inr None \<and>
   (\<exists>s. calculate_shift_workload demo_clock fresh_store (Some ''day'') (Some ''2026-01-16'') = Inr s \<and>
        carryover_hours s = 0 \<and> total_hours s = new_hours s)"
proof -
  have q1: "query_one fresh_store (vehicles_query (Some ''day'') (Some (isoformat ''2026-01-16''))) =
     Inr (Some \<lparr>row_total_vehicles = 1, row_total_hours = 100, row_completed_vehicles = 1\<rparr>)"
    by code_simp
  have q2: "query_one fresh_store (completed_query (Some ''day'') (Some (isoformat ''2026-01-16''))) =
     Inr (Some \<lparr>row_completed_hours = 50\<rparr>)"
    by code_simp
  have q3: "query_one fresh_store (carryover_query (Some (isoformat ''2026-01-16'')) (Some ''day'')) = Inr None"
    by code_simp
  show ?thesis
    using absent_carryover [OF q1 q2 q3, of demo_clock] q1 q2 q3 by blast
qed

text \<open>
  C9. When nothing exists at the database path, \<^verbatim>\<open>get_connection\<close> raises
  \<^verbatim>\<open>FileNotFoundError\<close>, and so does \<^verbatim>\<open>query_df\<close> whatever the statement, which is therefore
  not run; both calculators raise that same error. An error of any of the three queries
  of \<^verbatim>\<open>calculate_shift_workload\<close> is the error the calculator raises, and it raises no error
  but one of theirs; \<^verbatim>\<open>get_stage_breakdown\<close> raises exactly the errors of its query. Here
  \<open>sh\<close> and \<open>d\<close> are the shift and the date text the calculator resolves its arguments to.
\<close>

theorem store_failures_propagate:
  fixes stmt :: "'row statement"
  assumes sh: "sh = (case sa of None \<Rightarrow> get_current_shift clk | Some s \<Rightarrow> s)"
    and d: "d = isoformat (case da of None \<Rightarrow> today clk | Some t \<Rightarrow> t)"
  shows
    "(\<not> path_exists st \<longrightarrow>
        get_connection st = Inl (FileNotFoundError (''Database not found: '' @ database_path st)) \<and>
        query_df st stmt = Inl (FileNotFoundError (''Database not found: '' @ database_path st)) \<and>
        calculate_shift_workload clk st sa da =
          Inl (FileNotFoundError (''Database not found: '' @ database_path st)) \<and>
        get_stage_breakdown clk st sa da =
          Inl (FileNotFoundError (''Database not found: '' @ database_path st))) \<and>
     (query_one st (vehicles_query (Some sh) (Some d)) = Inl e \<longrightarrow>
        calculate_shift_workload clk st sa da = Inl e) \<and>
     (query_one st (vehicles_query (Some sh) (Some d)) = Inr v \<and>
      query_one st (completed_query (Some sh) (Some d)) = Inl e \<longrightarrow>
        calculate_shift_workload clk st sa da = Inl e) \<and>
     (query_one st (vehicles_query (Some sh) (Some d)) = Inr v \<and>
      query_one st (completed_query (Some sh) (Some d)) = Inr c \<and>
      query_one st (carryover_query (Some d) (Some sh)) = Inl e \<longrightarrow>
        calculate_shift_workload clk st sa da = Inl e) \<and>
     (calculate_shift_workload clk st sa da = Inl e \<longrightarrow>
        query_one st (vehicles_query (Some sh) (Some d)) = Inl e \<or>
        query_one st (completed_query (Some sh) (Some d)) = Inl e \<or>
        query_one st (carryover_query (Some d) (Some sh)) = Inl e) \<and>
     (get_stage_breakdown clk st sa da = Inl e) =
       (query_df st (stage_query (Some d) sa sa) = Inl e)"
proof (intro conjI impI)
  assume m: "\<not> path_exists st"
  show "get_connection st = Inl (FileNotFoundError (''Database not found: '' @ database_path st))"
    using m by (simp add: get_connection_def)
  show "query_df st stmt = Inl (FileNotFoundError (''Database not found: '' @ database_path st))"
    using m by (rule missing_store_query_df)
  show "calculate_shift_workload clk st sa da =
          Inl (FileNotFoundError (''Database not found: '' @ database_path st))"
    using m by (simp add: calculate_shift_workload_def Let_def missing_store_query_one)
  show "get_stage_breakdown clk st sa da =
          Inl (FileNotFoundError (''Database not found: '' @ database_path st))"
    using m by (simp add: get_stage_breakdown_def Let_def missing_store_query_df)
next
  assume "query_one st (vehicles_query (Some sh) (Some d)) = Inl e"
  then show "calculate_shift_workload clk st sa da = Inl e"
    by (simp add: calculate_shift_workload_def Let_def sh d)
next
  assume "query_one st (vehicles_query (Some sh) (Some d)) = Inr v \<and>
          query_one st (completed_query (Some sh) (Some d)) = Inl e"
  then show "calculate_shift_workload clk st sa da = Inl e"
    by (simp add: calculate_shift_workload_def Let_def sh d)
next
  assume "query_one st (vehicles_query (Some sh) (Some d)) = Inr v \<and>
          query_one st (completed_query (Some sh) (Some d)) = Inr c \<and>
          query_one st (carryover_query (Some d) (Some sh)) = Inl e"
  then show "calculate_shift_workload clk st sa da = Inl e"
    by (simp add: calculate_shift_workload_def Let_def sh d)
next
  assume "calculate_shift_workload clk st sa da = Inl e"
  then show "query_one st (vehicles_query (Some sh) (Some d)) = Inl e \<or>
        query_one st (completed_query (Some sh) (Some d)) = Inl e \<or>
        query_one st (carryover_query (Some d) (Some sh)) = Inl e"
    by (auto simp: calculate_shift_workload_def Let_def sh d percentage_value split: sum.splits)
next
  show "(get_stage_breakdown clk st sa da = Inl e) =
       (query_df st (stage_query (Some d) sa sa) = Inl e)"
    by (auto simp: get_stage_breakdown_def Let_def d calculate_percentages_value split: sum.splits)
qed

theorem store_failures_propagate_witness:
  "\<not> path_exists missing_store \<and>
   calculate_shift_workload demo_clock missing_store None None =
     Inl (FileNotFoundError ''Database not found: data/logistics.db'') \<and>
   get_stage_breakdown demo_clock missing_store None None =
     Inl (FileNotFoundError ''Database not found: data/logistics.db'') \<and>
   query_one no_summaries_store (carryover_query (Some ''2026-01-16'') (Some ''day'')) =
     Inl (OperationalError ''no such table: shift_summaries'') \<and>
   calculate_shift_workload demo_clock no_summaries_store None None =
     Inl (OperationalError ''no such table: shift_summaries'') \<and>
   query_df no_work_orders_store (stage_query (Some ''2026-01-16'') None None) =
     Inl (OperationalError ''no such table: work_orders'') \<and>
   get_stage_breakdown demo_clock no_work_orders_store None None =
     Inl (OperationalError ''no such table: work_orders'')"
proof -
  have sh: "''day'' = (case None of None \<Rightarrow> get_current_shift demo_clock | Some s \<Rightarrow> s)"
    by code_simp
  have d: "''2026-01-16'' = isoformat (case None of None \<Rightarrow> today demo_clock | Some t \<Rightarrow> t)"
    by code_simp
  have m: "\<not> path_exists missing_store"
    by (simp add: missing_store_def)
  have p: "database_path missing_store = ''data/logistics.db''"
    by (simp add: missing_store_def demo_store_def)
  note A = store_failures_propagate [OF sh d, of missing_store "vehicles_query None None"]
  have a: "calculate_shift_workload demo_clock missing_store None None =
             Inl (FileNotFoundError ''Database not found: data/logistics.db'')"
          "get_stage_breakdown demo_clock missing_store None None =
             Inl (FileNotFoundError ''Database not found: data/logistics.db'')"
    using conjunct1 [OF A] m p by simp_all
  have q1: "query_one no_summaries_store (vehicles_query (Some ''day'') (Some ''2026-01-16'')) =
     Inr (Some \<lparr>row_total_vehicles = 1, row_total_hours = 100, row_completed_vehicles = 1\<rparr>)"
    by code_simp
  have q2: "query_one no_summaries_store (completed_query (Some ''day'') (Some ''2026-01-16'')) =
     Inr (Some \<lparr>row_completed_hours = 50\<rparr>)"
    by code_simp
  have q3: "query_one no_summaries_store (carryover_query (Some ''2026-01-16'') (Some ''day'')) =
     Inl (OperationalError ''no such table: shift_summaries'')"
    by code_simp
  note B = store_failures_propagate [OF sh d, of no_summaries_store "vehicles_query None None"
      "OperationalError ''no such table: shift_summaries''"
      "Some \<lparr>row_total_vehicles = 1, row_total_hours = 100, row_completed_vehicles = 1\<rparr>"
      "Some \<lparr>row_completed_hours = 50\<rparr>"]
  have b: "calculate_shift_workload demo_clock no_summaries_store None None =
             Inl (OperationalError ''no such table: shift_summaries'')"
    using B q1 q2 q3 by blast
  have q4: "query_df no_work_orders_store (stage_query (Some ''2026-01-16'') None None) =
     Inl (OperationalError ''no such table: work_orders'')"
    by code_simp
  note C = store_failures_propagate [OF sh d, of no_work_orders_store "vehicles_query None None"
      "OperationalError ''no such table: work_orders''"]
  have c: "get_stage_breakdown demo_clock no_work_orders_store None None =
     Inl (OperationalError ''no such table: work_orders'')"
    using C q4 by blast
  show ?thesis using m a q3 b q4 c by blast
qed

text \<open>
  C10. For every statement, \<^verbatim>\<open>query_one\<close> returns the first row of the list that
  \<^verbatim>\<open>query_df\<close> returns for it, \<^verbatim>\<open>None\<close> when that list is empty (the index is guarded, so no
  \<^verbatim>\<open>IndexError\<close>), and the error of \<^verbatim>\<open>query_df\<close> when it raises.
\<close>

theorem query_one_first_of_query_df:
  "query_one st stmt =
     (case query_df st stmt of
        Inl e \<Rightarrow> Inl e
      | Inr [] \<Rightarrow> Inr None
      | Inr (r # rs) \<Rightarrow> Inr (Some r))"
  by (simp add: query_one_def py_getitem_first split: sum.splits list.splits)

text \<open>
  C2 fails on the code. \<^verbatim>\<open>COUNT(v.id)\<close> is taken after the join with the work orders, so
  it counts one row for each work order of a vehicle: the single vehicle of the store below,
  with its two work orders, gives a \<^verbatim>\<open>vehicle_count\<close> of \<open>2\<close>, with or without a shift.
  The workload query, which counts on the vehicles alone, reports one vehicle. In general
  (lemma \<open>stage_breakdown_vehicle_count\<close>) a matched vehicle counts once when it has no work
  order and once for each work order otherwise.
\<close>

theorem vehicle_count_counts_joined_rows:
  "get_stage_breakdown demo_clock fanout_store (Some ''day'') (Some ''2026-01-16'') =
     Inr [\<lparr>stage_name = ''Installation'', stage_order = 1, vehicle_count = 2,
           hours_remaining = 5, hours_completed = 0, stage_percent_complete = 0\<rparr>] \<and>
   get_stage_breakdown demo_clock fanout_store None (Some ''2026-01-16'') =
     Inr [\<lparr>stage_name = ''Installation'', stage_order = 1, vehicle_count = 2,
           hours_remaining = 5, hours_completed = 0, stage_percent_complete = 0\<rparr>] \<and>
   calculate_shift_workload demo_clock fanout_store (Some ''day'') (Some ''2026-01-16'') =
     Inr \<lparr>shift = ''day'', date = ''2026-01-16'', new_hours = 5, carryover_hours = 0,
          total_hours = 5, completed_hours = 0, percent_complete = 0, vehicles_total = 1,
          vehicles_completed = 0\<rparr>"
  by code_simp

text \<open>
  C6. On a store with its three tables, whose stage catalog lists no row twice,
  \<^verbatim>\<open>get_stage_breakdown\<close> returns, for every shift and date, a list in non-decreasing
  \<^verbatim>\<open>stage_order\<close> whose entries are the catalog's stages, each once (as multisets of name
  and order); a stage that no vehicle matches is there with \<^verbatim>\<open>vehicle_count\<close>,
  \<^verbatim>\<open>hours_remaining\<close>, \<^verbatim>\<open>hours_completed\<close> and \<^verbatim>\<open>percent_complete\<close> all \<open>0\<close>.
\<close>

theorem stage_breakdown_covers_catalog:
  assumes conn: "get_connection st = Inr db"
    and tables: "production_stages db = Some pss" "vehicles db = Some vs"
      "work_orders db = Some wos"
    and ids: "distinct pss"
    and d: "d = isoformat (case da of None \<Rightarrow> today clk | Some t \<Rightarrow> t)"
  shows "\<exists>rs. get_stage_breakdown clk st sa da = Inr rs \<and>
           sorted (map stage_order rs) \<and>
           mset (map (\<lambda>r. (stage_name r, stage_order r)) rs) =
             mset (map (\<lambda>ps. (ps_stage_name ps, ps_stage_order ps)) pss) \<and>
           (\<forall>ps \<in> set pss. (\<forall>v \<in> set vs. \<not> stage_on (Some d) sa sa ps v) \<longrightarrow>
              \<lparr>stage_name = ps_stage_name ps, stage_order = ps_stage_order ps,
               vehicle_count = 0, hours_remaining = 0, hours_completed = 0,
               stage_percent_complete = 0\<rparr> \<in> set rs)"
proof -
  define grp where "grp = (\<lambda>ps. (stage_key ps, stage_block (Some d) sa sa vs wos ps))"
  define ord :: "(int \<times> string \<times> int) \<times>
      ((production_stage \<times> vehicle option) \<times> work_order option) list \<Rightarrow> int"
    where "ord = (\<lambda>g. snd (snd (fst g)))"
  define rs where "rs = map set_percent_complete (map stage_select (sort_key ord (map grp pss)))"
  have ret: "get_stage_breakdown clk st sa da = Inr rs"
    using stage_breakdown_blocks [OF conn tables ids d, of sa]
    by (simp only: rs_def grp_def ord_def)
  have "map stage_order rs = map ord (sort_key ord (map grp pss))"
    by (simp add: rs_def ord_def set_percent_complete_fields stage_select_key)
  then have srt: "sorted (map stage_order rs)"
    by (simp only: sorted_sort_key)
  have "map (\<lambda>r. (stage_name r, stage_order r)) rs =
          map (\<lambda>g. snd (fst g)) (sort_key ord (map grp pss))"
    by (simp add: rs_def set_percent_complete_fields stage_select_key)
  then have "mset (map (\<lambda>r. (stage_name r, stage_order r)) rs) =
          image_mset (\<lambda>g. snd (fst g)) (mset (sort_key ord (map grp pss)))"
    by (simp only: mset_map)
  also have "\<dots> = image_mset (\<lambda>g. snd (fst g)) (mset (map grp pss))"
    by (simp only: mset_sort)
  also have "\<dots> = mset (map (\<lambda>g. snd (fst g)) (map grp pss))"
    by (simp only: mset_map)
  also have "map (\<lambda>g. snd (fst g)) (map grp pss) =
               map (\<lambda>ps. (ps_stage_name ps, ps_stage_order ps)) pss"
    by (simp add: grp_def stage_key_def)
  finally have cover: "mset (map (\<lambda>r. (stage_name r, stage_order r)) rs) =
          mset (map (\<lambda>ps. (ps_stage_name ps, ps_stage_order ps)) pss)" .
  have zero: "\<lparr>stage_name = ps_stage_name ps, stage_order = ps_stage_order ps,
               vehicle_count = 0, hours_remaining = 0, hours_completed = 0,
               stage_percent_complete = 0\<rparr> \<in> set rs"
    if ps: "ps \<in> set pss" and none: "\<forall>v \<in> set vs. \<not> stage_on (Some d) sa sa ps v" for ps
  proof -
    from none have "grp ps = (stage_key ps, [((ps, None), None)])"
      by (simp add: grp_def stage_block_no_vehicle)
    then have "set_percent_complete (stage_select (grp ps)) =
                 \<lparr>stage_name = ps_stage_name ps, stage_order = ps_stage_order ps,
                  vehicle_count = 0, hours_remaining = 0, hours_completed = 0,
                  stage_percent_complete = 0\<rparr>"
      by (simp add: stage_select_no_vehicle set_percent_complete_def percent_value_def)
    moreover from ps have "set_percent_complete (stage_select (grp ps)) \<in> set rs"
      by (simp add: rs_def)
    ultimately show ?thesis by simp
  qed
  from ret srt cover zero show ?thesis by blast
qed


theorem stage_breakdown_covers_catalog_witness:
  "get_connection demo_store = Inr demo_db \<and>
   production_stages demo_db = Some [installation_stage, ppo_stage] \<and>
   vehicles demo_db = Some [demo_vehicle] \<and>
   work_orders demo_db = Some demo_work_orders \<and>
   distinct [installation_stage, ppo_stage] \<and>
   \<not> stage_on (Some ''2026-01-16'') None None ppo_stage demo_vehicle \<and>
   get_stage_breakdown demo_clock demo_store None None = Inr [demo_installation, demo_ppo] \<and>
   sorted (map stage_order [demo_installation, demo_ppo]) \<and>
   mset (map (\<lambda>r. (stage_name r, stage_order r)) [demo_installation, demo_ppo]) =
     mset (map (\<lambda>ps. (ps_stage_name ps, ps_stage_order ps)) [installation_stage, ppo_stage]) \<and>
   demo_ppo \<in> set [demo_installation, demo_ppo]"
proof -
  have conn: "get_connection demo_store = Inr demo_db"
    by (simp add: get_connection_def demo_store_def)
  have t1: "production_stages demo_db = Some [installation_stage, ppo_stage]"
    and t2: "vehicles demo_db = Some [demo_vehicle]"
    and t3: "work_orders demo_db = Some demo_work_orders"
    by (simp_all add: demo_db_def)
  have ids: "distinct [installation_stage, ppo_stage]"
    by (simp add: installation_stage_def ppo_stage_def)
  have d: "''2026-01-16'' = isoformat (case None of None \<Rightarrow> today demo_clock | Some t \<Rightarrow> t)"
    by (simp add: isoformat_def demo_clock_def)
  have none: "\<not> stage_on (Some ''2026-01-16'') None None ppo_stage demo_vehicle"
    by code_simp
  have zero: "\<lparr>stage_name = ps_stage_name ppo_stage, stage_order = ps_stage_order ppo_stage,
               vehicle_count = 0, hours_remaining = 0, hours_completed = 0,
               stage_percent_complete = 0\<rparr> = demo_ppo"
    by (simp add: demo_ppo_def ppo_stage_def)
  from stage_breakdown_covers_catalog [OF conn t1 t2 t3 ids d, of None]
  obtain rs where rs: "get_stage_breakdown demo_clock demo_store None None = Inr rs"
    and srt: "sorted (map stage_order rs)"
    and cover: "mset (map (\<lambda>r. (stage_name r, stage_order r)) rs) =
        mset (map (\<lambda>ps. (ps_stage_name ps, ps_stage_order ps)) [installation_stage, ppo_stage])"
    and z: "\<forall>ps \<in> set [installation_stage, ppo_stage].
              (\<forall>v \<in> set [demo_vehicle]. \<not> stage_on (Some ''2026-01-16'') None None ps v) \<longrightarrow>
              \<lparr>stage_name = ps_stage_name ps, stage_order = ps_stage_order ps,
               vehicle_count = 0, hours_remaining = 0, hours_completed = 0,
               stage_percent_complete = 0\<rparr> \<in> set rs"
    by blast
  from rs demo_stages_eval have eq: "rs = [demo_installation, demo_ppo]" by simp
  from z none zero have "demo_ppo \<in> set rs" by simp
  with conn t1 t2 t3 ids none rs srt cover eq show ?thesis by simp
qed

text \<open>
  C7. With \<^verbatim>\<open>shift\<close> \<^verbatim>\<open>None\<close>, \<^verbatim>\<open>get_stage_breakdown\<close> applies no shift filter. On a store
  with its three tables it returns the aggregates over the join whose \<^verbatim>\<open>ON\<close> clause is
  the stage and the arrival date alone (\<open>stage_date_on\<close>): every vehicle of the stage that
  arrived on the date is aggregated, whatever its shift. In a catalog that lists no row
  twice, the entry of each stage counts the vehicles that match on stage and date, once
  for a vehicle without work orders and once for each work order otherwise. The result is
  the same whatever shifts the vehicles are assigned to, and the shift is not resolved
  from the clock: the result does not depend on the hour. \<^verbatim>\<open>calculate_shift_workload\<close>, in
  contrast, treats \<^verbatim>\<open>None\<close> as the shift of the current hour.
\<close>

theorem null_shift_applies_no_filter:
  assumes conn: "get_connection st = Inr db"
    and tables: "production_stages db = Some pss" "vehicles db = Some vs"
      "work_orders db = Some wos"
    and d: "d = isoformat (case da of None \<Rightarrow> today clk | Some t \<Rightarrow> t)"
  shows
    "get_stage_breakdown clk st None da =
       Inr (map set_percent_complete
              (map stage_select
                 (sort_key (\<lambda>g. snd (snd (fst g)))
                    (group_by (\<lambda>r. stage_key (fst (fst r)))
                       (left_join wo_on (left_join (stage_date_on d) pss vs) wos))))) \<and>
     (distinct pss \<longrightarrow>
        (\<forall>ps \<in> set pss. \<exists>rs r.
           get_stage_breakdown clk st None da = Inr rs \<and> r \<in> set rs \<and>
           stage_name r = ps_stage_name ps \<and> stage_order r = ps_stage_order ps \<and>
           vehicle_count r =
             int (\<Sum>v\<leftarrow>filter (stage_date_on d ps) vs.
                    max 1 (length (filter (\<lambda>wo. vehicle_id wo = Some (v_id v)) wos))))) \<and>
     get_stage_breakdown clk
       (st\<lparr>sqlite_connect :=
           Inr (db\<lparr>vehicles := Some (map (\<lambda>v. v\<lparr>shift_assigned := f v\<rparr>) vs)\<rparr>)\<rparr>) None da =
       get_stage_breakdown clk st None da \<and>
     stage_on (Some d) None None ps' v' =
       (current_stage_id v' = Some (ps_id ps') \<and> arrival_date v' = Some d) \<and>
     get_stage_breakdown (clk\<lparr>now_hour := h\<rparr>) st None da = get_stage_breakdown clk st None da \<and>
     calculate_shift_workload clk st None da =
       calculate_shift_workload clk st (Some (get_current_shift clk)) da"
proof (intro conjI impI ballI)
  show "get_stage_breakdown clk st None da =
       Inr (map set_percent_complete
              (map stage_select
                 (sort_key (\<lambda>g. snd (snd (fst g)))
                    (group_by (\<lambda>r. stage_key (fst (fst r)))
                       (left_join wo_on (left_join (stage_date_on d) pss vs) wos)))))"
    using conn tables d by (rule stage_breakdown_null_shift)
next
  fix ps
  assume dist: "distinct pss" and ps: "ps \<in> set pss"
  show "\<exists>rs r.
           get_stage_breakdown clk st None da = Inr rs \<and> r \<in> set rs \<and>
           stage_name r = ps_stage_name ps \<and> stage_order r = ps_stage_order ps \<and>
           vehicle_count r =
             int (\<Sum>v\<leftarrow>filter (stage_date_on d ps) vs.
                    max 1 (length (filter (\<lambda>wo. vehicle_id wo = Some (v_id v)) wos)))"
    using stage_breakdown_vehicle_count [OF conn tables dist d ps, of None]
    by (simp only: stage_on_null_shift_fun)
next
  from conn have c: "sqlite_connect st = Inr db" and e: "path_exists st"
    by (simp_all add: get_connection_def split: if_splits)
  show "get_stage_breakdown clk
       (st\<lparr>sqlite_connect :=
           Inr (db\<lparr>vehicles := Some (map (\<lambda>v. v\<lparr>shift_assigned := f v\<rparr>) vs)\<rparr>)\<rparr>) None da =
       get_stage_breakdown clk st None da"
    using c
    by (simp add: get_stage_breakdown_def Let_def query_df_def get_connection_def
        stage_query_null_shift_reassigned [OF tables(2)])
next
  show "stage_on (Some d) None None ps' v' =
       (current_stage_id v' = Some (ps_id ps') \<and> arrival_date v' = Some d)"
    by (rule stage_on_null_shift)
next
  show "get_stage_breakdown (clk\<lparr>now_hour := h\<rparr>) st None da = get_stage_breakdown clk st None da"
    by (cases da) (simp_all add: get_stage_breakdown_def)
next
  show "calculate_shift_workload clk st None da =
       calculate_shift_workload clk st (Some (get_current_shift clk)) da"
    by (simp add: calculate_shift_workload_def)
qed


theorem null_shift_applies_no_filter_witness:
  "get_connection demo_store = Inr demo_db \<and>
   production_stages demo_db = Some [installation_stage, ppo_stage] \<and>
   vehicles demo_db = Some [demo_vehicle] \<and>
   work_orders demo_db = Some demo_work_orders \<and>
   distinct [installation_stage, ppo_stage] \<and>
   get_stage_breakdown demo_clock night_store None None =
     get_stage_breakdown demo_clock demo_store None None \<and>
   get_stage_breakdown demo_clock night_store None None = Inr [demo_installation, demo_ppo] \<and>
   (\<exists>rs r. get_stage_breakdown demo_clock night_store None None = Inr rs \<and> r \<in> set rs \<and>
      stage_name r = ''Installation'' \<and> stage_order r = 1 \<and> vehicle_count r = 2) \<and>
   get_current_shift demo_clock = ''day'' \<and>
   get_stage_breakdown demo_clock night_store (Some ''day'') None =
     Inr [\<lparr>stage_name = ''Installation'', stage_order = 1, vehicle_count = 0,
           hours_remaining = 0, hours_completed = 0, stage_percent_complete = 0\<rparr>, demo_ppo] \<and>
   calculate_shift_workload demo_clock demo_store None None =
     calculate_shift_workload demo_clock demo_store (Some ''day'') None"
proof -
  define night_db where
    "night_db = demo_db\<lparr>vehicles :=
       Some (map (\<lambda>v. v\<lparr>shift_assigned := Some ''night''\<rparr>) [demo_vehicle])\<rparr>"
  have c: "get_connection demo_store = Inr demo_db"
    by (simp add: get_connection_def demo_store_def)
  have t1: "production_stages demo_db = Some [installation_stage, ppo_stage]"
    and t2: "vehicles demo_db = Some [demo_vehicle]"
    and t3: "work_orders demo_db = Some demo_work_orders"
    by (simp_all add: demo_db_def)
  have d: "''2026-01-16'' = isoformat (case None of None \<Rightarrow> today demo_clock | Some t \<Rightarrow> t)"
    by (simp add: isoformat_def demo_clock_def)
  have ids: "distinct [installation_stage, ppo_stage]"
    by (simp add: installation_stage_def ppo_stage_def)
  note T = null_shift_applies_no_filter [OF c t1 t2 t3 d, of "\<lambda>v. Some ''night''"]
  have a: "get_stage_breakdown demo_clock night_store None None =
             get_stage_breakdown demo_clock demo_store None None"
    using conjunct1 [OF conjunct2 [OF conjunct2 [OF T]]] by (simp only: night_store_def)
  have sh: "get_current_shift demo_clock = ''day''"
    by code_simp
  have w: "calculate_shift_workload demo_clock demo_store None None =
     calculate_shift_workload demo_clock demo_store (Some ''day'') None"
    using conjunct2 [OF conjunct2 [OF conjunct2 [OF conjunct2 [OF conjunct2 [OF T]]]]] sh
    by simp
  have nc: "get_connection night_store = Inr night_db"
    by (simp add: get_connection_def night_store_def demo_store_def night_db_def)
  have n1: "production_stages night_db = Some [installation_stage, ppo_stage]"
    and n2: "vehicles night_db = Some [demo_vehicle\<lparr>shift_assigned := Some ''night''\<rparr>]"
    and n3: "work_orders night_db = Some demo_work_orders"
    by (simp_all add: night_db_def demo_db_def)
  note N = null_shift_applies_no_filter [OF nc n1 n2 n3 d]
  have cnt: "int (\<Sum>v\<leftarrow>filter (stage_date_on ''2026-01-16'' installation_stage)
                         [demo_vehicle\<lparr>shift_assigned := Some ''night''\<rparr>].
                 max 1 (length (filter (\<lambda>wo. vehicle_id wo = Some (v_id v)) demo_work_orders))) = 2"
    by code_simp
  have nm: "ps_stage_name installation_stage = ''Installation''"
    "ps_stage_order installation_stage = 1"
    by (simp_all add: installation_stage_def)
  from conjunct1 [OF conjunct2 [OF N]] ids
  have "\<exists>rs r. get_stage_breakdown demo_clock night_store None None = Inr rs \<and> r \<in> set rs \<and>
      stage_name r = ps_stage_name installation_stage \<and>
      stage_order r = ps_stage_order installation_stage \<and>
      vehicle_count r =
        int (\<Sum>v\<leftarrow>filter (stage_date_on ''2026-01-16'' installation_stage)
                         [demo_vehicle\<lparr>shift_assigned := Some ''night''\<rparr>].
               max 1 (length (filter (\<lambda>wo. vehicle_id wo = Some (v_id v)) demo_work_orders)))"
    by simp
  then have agg: "\<exists>rs r. get_stage_breakdown demo_clock night_store None None = Inr rs \<and>
      r \<in> set rs \<and> stage_name r = ''Installation'' \<and> stage_order r = 1 \<and> vehicle_count r = 2"
    by (simp only: cnt nm)
  have b: "get_stage_breakdown demo_clock night_store (Some ''day'') None =
     Inr [\<lparr>stage_name = ''Installation'', stage_order = 1, vehicle_count = 0,
           hours_remaining = 0, hours_completed = 0, stage_percent_complete = 0\<rparr>, demo_ppo]"
    by code_simp
  from a demo_stages_eval
  have e: "get_stage_breakdown demo_clock night_store None None = Inr [demo_installation, demo_ppo]"
    by simp
  show ?thesis using c t1 t2 t3 ids a e agg sh b w by blast
qed

end
